theory Spec2Isabelle
  imports Complex_Main "HOL-Library.Sublist" "HOL-Library.AList"
begin

section \<open>ayushma/utils/openaiapi.py: the conversation turn\<close>

text \<open>
  A shallow embedding of \<^verbatim>\<open>src/ayushma/utils/openaiapi.py\<close>. Python strings are
  \<open>string\<close> (code points below 256); an exception is the value \<open>Exception msg\<close> with
  \<open>msg = str(e)\<close>, and a call that may raise returns \<open>exn + 'a\<close>. The database, the
  clock, the default argument of \<^verbatim>\<open>converse\<close> and the log of calls made to the outside
  are the fields of one \<open>world\<close> record that every operation takes and returns. The
  services the module imports but does not define (translation, speech, upload, the
  language model, the vector index, the document table) are the fields of an \<open>env\<close>
  record; each is a function of its arguments that returns a value or raises.

  What the model leaves out: the operations of the ORM on \<^verbatim>\<open>ChatMessage\<close> (create, save,
  add to the relation) do not fail; the generator \<^verbatim>\<open>converse\<close> is run by its caller
  until it is exhausted; the clock only counts its readings. The producer task of the
  streaming branch runs beside the consumer: what it does is the list of batches it
  puts on the queue, one between two tests of the consumer's loop.
\<close>

subsection \<open>Python string operations used by the module\<close>

text \<open>\<^verbatim>\<open>s.find(sub)\<close>: the lowest index where \<open>sub\<close> starts; \<open>None\<close> stands for -1.\<close>

fun str_find :: "string \<Rightarrow> string \<Rightarrow> nat option" where
  "str_find [] sub = (if sub = [] then Some 0 else None)"
| "str_find (c # cs) sub =
     (if prefix sub (c # cs) then Some 0 else map_option Suc (str_find cs sub))"

text \<open>\<^verbatim>\<open>s.split(sep)\<close> for a one-character separator: never an empty list.\<close>

fun str_split :: "string \<Rightarrow> char \<Rightarrow> string list" where
  "str_split [] sep = [[]]"
| "str_split (c # cs) sep =
     (if c = sep then [] # str_split cs sep
      else (case str_split cs sep of [] \<Rightarrow> [[c]] | p # ps \<Rightarrow> (c # p) # ps))"

text \<open>\<^verbatim>\<open>s.strip(chars)\<close>: drops leading and trailing characters that are in \<open>chars\<close>.\<close>

definition str_strip_chars :: "string \<Rightarrow> string \<Rightarrow> string" where
  "str_strip_chars s chars =
     rev (dropWhile (\<lambda>c. c \<in> set chars) (rev (dropWhile (\<lambda>c. c \<in> set chars) s)))"

text \<open>\<^verbatim>\<open>s.strip()\<close>: the characters Python counts as whitespace, among code points
  below 256 (tab, line feed, vertical tab, form feed, carriage return, the four
  separators 28 to 31, space, next line, no-break space).\<close>

definition py_whitespace :: string where
  "py_whitespace =
     [CHR 0x09, CHR 0x0A, CHR 0x0B, CHR 0x0C, CHR 0x0D, CHR 0x1C, CHR 0x1D, CHR 0x1E,
      CHR 0x1F, CHR 0x20, CHR 0x85, CHR 0xA0]"

definition str_strip :: "string \<Rightarrow> string" where
  "str_strip s = str_strip_chars s py_whitespace"

text \<open>\<^verbatim>\<open>s.replace(old, new)\<close> for a non-empty \<open>old\<close>: every occurrence, left to right,
  without overlap. The counter is the number of characters of a match still to skip.\<close>

fun str_replace_from :: "nat \<Rightarrow> string \<Rightarrow> string \<Rightarrow> string \<Rightarrow> string" where
  "str_replace_from k [] old new = []"
| "str_replace_from (Suc k) (c # cs) old new = str_replace_from k cs old new"
| "str_replace_from 0 (c # cs) old new =
     (if prefix old (c # cs) then new @ str_replace_from (length old - 1) cs old new
      else c # str_replace_from 0 cs old new)"

definition str_replace :: "string \<Rightarrow> string \<Rightarrow> string \<Rightarrow> string" where
  "str_replace s old new = str_replace_from 0 s old new"

text \<open>\<^verbatim>\<open>str(x)\<close> of a value that is a string or \<^verbatim>\<open>None\<close>, as an f-string renders it.\<close>

definition str_of_opt :: "string option \<Rightarrow> string" where
  "str_of_opt x = (case x of None \<Rightarrow> ''None'' | Some s \<Rightarrow> s)"

text \<open>Truthiness of a value that is a string or \<^verbatim>\<open>None\<close>.\<close>

definition truthy :: "string option \<Rightarrow> bool" where
  "truthy x = (case x of None \<Rightarrow> False | Some s \<Rightarrow> s \<noteq> [])"

subsection \<open>Data model\<close>

type_synonym time = nat
type_synonym stats = "string \<rightharpoonup> time"
type_synonym bytes = "nat list"
type_synonym Document = nat
type_synonym temperature = rat

datatype exn = Exception string

fun str_exn :: "exn \<Rightarrow> string" where
  "str_exn (Exception msg) = msg"

datatype ChatMessageType = USER | AYUSHMA

text \<open>A row of the \<^verbatim>\<open>ChatMessage\<close> table. Fields that \<^verbatim>\<open>objects.create\<close> is not given
  keep their default; the model class is not among the sources, so \<open>None\<close> (and the
  empty mapping for \<open>meta\<close>) stands for it.\<close>

record ChatMessage =
  cm_id :: nat
  cm_message :: "string option"
  cm_original_message :: string
  cm_chat :: string
  cm_messageType :: ChatMessageType
  cm_top_k :: "nat option"
  cm_temperature :: "temperature option"
  cm_language :: string
  cm_meta :: "(string \<times> time option) list"
  cm_ayushma_audio_url :: "string option"

record Project =
  project_external_id :: "string option"
  project_prompt :: "string option"

text \<open>\<open>chat_id\<close> and \<open>chat_external_id\<close> hold the texts \<^verbatim>\<open>str(chat.id)\<close> and
  \<^verbatim>\<open>str(chat.external_id)\<close>, the only way the module reads them.\<close>

record Chat =
  chat_id :: string
  chat_external_id :: string
  chat_prompt :: "string option"
  chat_project :: "Project option"

text \<open>The fields of the dictionary \<^verbatim>\<open>create_json_response\<close> serialises.\<close>

record json_data =
  j_chat :: string
  j_input :: string
  j_delta :: string
  j_message :: string
  j_stop :: bool
  j_ayushma_voice :: "string option"

text \<open>What \<^verbatim>\<open>converse\<close> yields: the stored message (not streaming) or a data line.\<close>

datatype event = Yield_message ChatMessage | Yield_data json_data

text \<open>A value of the token queue: a string token, the sentinel object
  \<^verbatim>\<open>RESPONSE_END\<close>, or any other object, with the name of its type.\<close>

datatype qval = Token string | RESPONSE_END | Object string

datatype history_message = HumanMessage string | AIMessage string

text \<open>What \<^verbatim>\<open>get_reference\<close> hands back: a string, or (line 125) an exception object
  that is returned, not raised.\<close>

datatype reference = Ref_str string | Ref_exception string

record llm_args =
  llm_openai_api_key :: string
  llm_prompt_template :: "string option"
  llm_temperature :: temperature
  llm_user_msg :: string
  llm_reference :: reference
  llm_chat_history :: "history_message list"

record pinecone_match =
  metadata :: "(string \<times> string) list"

record QueryResponse =
  matches :: "pinecone_match list"

text \<open>Every call that leaves the module, in the order made.\<close>

datatype call =
    Db_create nat
  | Db_save nat
  | Db_reference_add nat Document
  | Call_translate_text string string
  | Call_text_to_speech string string
  | Call_upload_file bytes string
  | Call_get_embedding "string list"
  | Call_pinecone_query nat string
  | Call_get_response llm_args
  | Call_get_aresponse llm_args

record world =
  ChatMessage_objects :: "ChatMessage list"
  reference_documents :: "(nat \<times> Document) list"
  calls :: "call list"
  clock :: time
  converse_default_stats :: stats

text \<open>The imported services. \<open>Document_get\<close> is \<^verbatim>\<open>Document.objects.get\<close>:
  \<open>Inr None\<close> is \<^verbatim>\<open>Document.DoesNotExist\<close>, \<open>Inl e\<close> any other exception.
  \<open>get_aresponse\<close> is the producer task: the batches of values it puts on the
  queue, one batch before each test of the consumer's loop, and nothing after the
  last batch. \<open>set_order\<close> is the order in which this interpreter iterates the set
  made from a list of strings: Python fixes none, it follows the hashes of the strings,
  which change from process to process.\<close>

record env =
  translate_text :: "string \<Rightarrow> string \<Rightarrow> exn + string"
  text_to_speech :: "string \<Rightarrow> string \<Rightarrow> exn + bytes option"
  upload_file :: "bytes \<Rightarrow> string \<Rightarrow> exn + string"
  Document_get :: "string \<Rightarrow> exn + Document option"
  uuid4 :: string
  num_tokens_from_string :: "string \<Rightarrow> string \<Rightarrow> nat"
  get_embedding :: "string list \<Rightarrow> string \<Rightarrow> exn + rat list list"
  pinecone_query :: "rat list list \<Rightarrow> nat \<Rightarrow> string \<Rightarrow> exn + QueryResponse"
  json_dumps :: "(string \<times> string) list \<Rightarrow> string"
  get_response :: "llm_args \<Rightarrow> exn + string"
  get_aresponse :: "llm_args \<Rightarrow> qval list list"
  set_order :: "string list \<Rightarrow> string list"

subsection \<open>The clock and the database\<close>

text \<open>\<^verbatim>\<open>time.time()\<close>: the instant, and a clock that has moved on.\<close>

definition time_time :: "world \<Rightarrow> time \<times> world" where
  "time_time w = (clock w, w\<lparr>clock := Suc (clock w)\<rparr>)"

definition log_call :: "call \<Rightarrow> world \<Rightarrow> world" where
  "log_call c w = w\<lparr>calls := calls w @ [c]\<rparr>"

text \<open>\<^verbatim>\<open>ChatMessage.objects.create(...)\<close>: the row gets the next id and is stored.\<close>

definition ChatMessage_create :: "ChatMessage \<Rightarrow> world \<Rightarrow> ChatMessage \<times> world" where
  "ChatMessage_create kwargs w =
     (let row = kwargs\<lparr>cm_id := length (ChatMessage_objects w)\<rparr>
      in (row, log_call (Db_create (cm_id row))
                 (w\<lparr>ChatMessage_objects := ChatMessage_objects w @ [row]\<rparr>)))"

text \<open>\<^verbatim>\<open>chat_message.save()\<close>: the row with the object's id is overwritten.\<close>

definition ChatMessage_save :: "ChatMessage \<Rightarrow> world \<Rightarrow> world" where
  "ChatMessage_save obj w =
     log_call (Db_save (cm_id obj))
       (w\<lparr>ChatMessage_objects := (ChatMessage_objects w)[cm_id obj := obj]\<rparr>)"

text \<open>\<^verbatim>\<open>chat_message.reference_documents.add(doc)\<close>: a row of the relation, once.\<close>

definition reference_documents_add :: "ChatMessage \<Rightarrow> Document \<Rightarrow> world \<Rightarrow> world" where
  "reference_documents_add obj doc w =
     log_call (Db_reference_add (cm_id obj) doc)
       (w\<lparr>reference_documents := List.insert (cm_id obj, doc) (reference_documents w)\<rparr>)"

subsection \<open>add_reference_documents (lines 151 to 174)\<close>

text \<open>The loop over the parsed ids. \<^verbatim>\<open>Document.DoesNotExist\<close> is passed over; any other
  exception leaves the loop and is caught and printed by the outer handler.\<close>

fun add_docs :: "env \<Rightarrow> ChatMessage \<Rightarrow> string list \<Rightarrow> world \<Rightarrow> world" where
  "add_docs env chat_message [] w = w"
| "add_docs env chat_message (doc_id # doc_ids) w =
     (case Document_get env doc_id of
        Inr (Some doc) \<Rightarrow>
          add_docs env chat_message doc_ids (reference_documents_add chat_message doc w)
      | Inr None \<Rightarrow> add_docs env chat_message doc_ids w
      | Inl e \<Rightarrow> w)"

text \<open>The characters of \<^verbatim>\<open>" .,[]*'\""\<close>.\<close>

definition doc_id_strip_chars :: string where
  "doc_id_strip_chars =
     [CHR '' '', CHR ''.'', CHR '','', CHR ''['', CHR '']'', CHR ''*'', CHR 0x27, CHR 0x22]"

text \<open>The object is changed in place in the source; here the changed object is
  returned with the world. The loop runs over \<^verbatim>\<open>set([...])\<close>, in the order the
  interpreter gives. That order shows only when \<^verbatim>\<open>Document.objects.get\<close> raises
  something other than \<^verbatim>\<open>DoesNotExist\<close>, which ends the loop at that id:
  \<open>add_docs_any_order\<close> below shows that without such an exception the documents
  attached are the same in every order.\<close>

definition add_reference_documents :: "env \<Rightarrow> ChatMessage \<Rightarrow> world \<Rightarrow> ChatMessage \<times> world" where
  "add_reference_documents env chat_message w =
     (let ref_text = ''References:'';
          chat_text = cm_original_message chat_message
      in case str_find chat_text ref_text of
           None \<Rightarrow> (chat_message, w)
         | Some ref_start_idx \<Rightarrow>
             (let doc_ids = str_split (drop (ref_start_idx + length ref_text) chat_text) CHR '','';
                  doc_ids = map (\<lambda>doc_id. str_strip_chars doc_id doc_id_strip_chars) doc_ids;
                  doc_ids = set_order env (filter (\<lambda>doc_id. doc_id \<noteq> []) doc_ids);
                  w = add_docs env chat_message doc_ids w;
                  chat_message =
                    chat_message\<lparr>cm_original_message := str_strip (take ref_start_idx chat_text)\<rparr>
              in (chat_message, ChatMessage_save chat_message w)))"

subsection \<open>handle_post_response (lines 177 to 234)\<close>

text \<open>The dictionary literal of lines 221 to 232, written again at lines 400 to 411.\<close>

definition timing_meta :: "stats \<Rightarrow> (string \<times> time option) list" where
  "timing_meta stats =
     [(''translate_start'', stats ''response_translation_start_time''),
      (''translate_end'', stats ''response_translation_end_time''),
      (''reference_start'', stats ''reference_start_time''),
      (''reference_end'', stats ''reference_end_time''),
      (''response_start'', stats ''response_start_time''),
      (''response_end'', stats ''response_end_time''),
      (''tts_start'', stats ''tts_start_time''),
      (''tts_end'', stats ''tts_end_time''),
      (''upload_start'', stats ''upload_start_time''),
      (''upload_end'', stats ''upload_end_time'')]"

text \<open>No statement of the function is inside a \<^verbatim>\<open>try\<close>: an exception of
  \<^verbatim>\<open>translate_text\<close>, \<^verbatim>\<open>text_to_speech\<close> or \<^verbatim>\<open>upload_file\<close> leaves it at once. The
  dictionary \<open>stats\<close> is changed in place, so it is returned on every path. The
  three stages of the body are written as functions of their own.\<close>

text \<open>Lines 196 to 202: translation, and the mark of its end.\<close>

definition translate_response ::
  "env \<Rightarrow> string \<Rightarrow> ChatMessage \<Rightarrow> stats \<Rightarrow> world \<Rightarrow> (exn + string) \<times> stats \<times> world" where
  "translate_response env user_language chat_message stats w =
     (let translated_chat_response = cm_original_message chat_message;
          (translated, stats, w) =
            (if user_language \<noteq> ''en-IN'' then
               (let (t, w) = time_time w;
                    stats = stats(''response_translation_start_time'' \<mapsto> t);
                    w = log_call (Call_translate_text user_language
                                    (cm_original_message chat_message)) w
                in (translate_text env user_language (cm_original_message chat_message),
                    stats, w))
             else (Inr translated_chat_response, stats, w))
      in case translated of
           Inl e \<Rightarrow> (Inl e, stats, w)
         | Inr translated_chat_response \<Rightarrow>
             (let (t, w) = time_time w
              in (Inr translated_chat_response,
                  stats(''response_translation_end_time'' \<mapsto> t), w)))"

text \<open>Lines 204 to 208: speech synthesis, when asked for.\<close>

definition synthesize_voice ::
  "env \<Rightarrow> bool \<Rightarrow> string \<Rightarrow> string \<Rightarrow> stats \<Rightarrow> world
     \<Rightarrow> (exn + bytes option) \<times> stats \<times> world" where
  "synthesize_voice env generate_audio translated_chat_response user_language stats w =
     (if generate_audio then
        (let (t, w) = time_time w;
             stats = stats(''tts_start_time'' \<mapsto> t);
             w = log_call (Call_text_to_speech translated_chat_response user_language) w
         in case text_to_speech env translated_chat_response user_language of
              Inl e \<Rightarrow> (Inl e, stats, w)
            | Inr ayushma_voice \<Rightarrow>
                (let (t, w) = time_time w
                 in (Inr ayushma_voice, stats(''tts_end_time'' \<mapsto> t), w)))
      else (Inr None, stats, w))"

text \<open>Lines 210 to 217: the upload, when there is audio (\<^verbatim>\<open>None\<close> and the empty
  byte string are both false).\<close>

definition upload_voice ::
  "env \<Rightarrow> Chat \<Rightarrow> bytes option \<Rightarrow> stats \<Rightarrow> world \<Rightarrow> (exn + string option) \<times> stats \<times> world" where
  "upload_voice env chat ayushma_voice stats w =
     (case ayushma_voice of
        None \<Rightarrow> (Inr None, stats, w)
      | Some audio \<Rightarrow>
          if audio = [] then (Inr None, stats, w)
          else
            (let (t, w) = time_time w;
                 stats = stats(''upload_start_time'' \<mapsto> t);
                 s3_key = chat_id chat @ ''_'' @ uuid4 env @ ''.mp3'';
                 w = log_call (Call_upload_file audio s3_key) w
             in case upload_file env audio s3_key of
                  Inl e \<Rightarrow> (Inl e, stats, w)
                | Inr url \<Rightarrow>
                    (let (t, w) = time_time w
                     in (Inr (Some url), stats(''upload_end_time'' \<mapsto> t), w))))"

definition handle_post_response ::
  "env \<Rightarrow> string \<Rightarrow> Chat \<Rightarrow> nat \<Rightarrow> string \<Rightarrow> temperature \<Rightarrow> stats \<Rightarrow> string \<Rightarrow> bool \<Rightarrow> world
     \<Rightarrow> (exn + string \<times> string option \<times> ChatMessage) \<times> stats \<times> world" where
  "handle_post_response env chat_response chat match_number user_language temperature stats
       language generate_audio w =
     (let (chat_message, w) =
            ChatMessage_create
              \<lparr>cm_id = 0, cm_message = None, cm_original_message = chat_response,
               cm_chat = chat_id chat, cm_messageType = AYUSHMA, cm_top_k = Some match_number,
               cm_temperature = Some temperature, cm_language = language, cm_meta = [],
               cm_ayushma_audio_url = None\<rparr> w;
          (chat_message, w) = add_reference_documents env chat_message w
      in case translate_response env user_language chat_message stats w of
           (Inl e, stats, w) \<Rightarrow> (Inl e, stats, w)
         | (Inr translated_chat_response, stats, w) \<Rightarrow>
      (case synthesize_voice env generate_audio translated_chat_response user_language
              stats w of
           (Inl e, stats, w) \<Rightarrow> (Inl e, stats, w)
         | (Inr ayushma_voice, stats, w) \<Rightarrow>
      (case upload_voice env chat ayushma_voice stats w of
           (Inl e, stats, w) \<Rightarrow> (Inl e, stats, w)
         | (Inr url, stats, w) \<Rightarrow>
      (let chat_message =
             chat_message\<lparr>cm_message := Some translated_chat_response,
                           cm_ayushma_audio_url := url,
                           cm_meta := timing_meta stats\<rparr>;
           w = ChatMessage_save chat_message w
       in (Inr (translated_chat_response, url, chat_message), stats, w)))))"

subsection \<open>Reference retrieval (lines 52 to 148)\<close>

text \<open>The body of the inner loop of \<^verbatim>\<open>get_sanitized_reference\<close>: a match without the
  key \<^verbatim>\<open>document\<close> or \<^verbatim>\<open>text\<close> raises \<^verbatim>\<open>KeyError\<close>, which is printed and passed over.
  The dictionary keeps the order of insertion.\<close>

fun sanitize_matches ::
  "pinecone_match list \<Rightarrow> (string \<times> string) list \<Rightarrow> (string \<times> string) list" where
  "sanitize_matches [] sanitized_reference = sanitized_reference"
| "sanitize_matches (m # ms) sanitized_reference =
     (case map_of (metadata m) ''document'' of
        None \<Rightarrow> sanitize_matches ms sanitized_reference
      | Some document_id \<Rightarrow>
          (case map_of (metadata m) ''text'' of
             None \<Rightarrow> sanitize_matches ms sanitized_reference
           | Some txt \<Rightarrow>
               (let txt = str_replace txt [CHR 0x0A] '' '' @ '',''
                in sanitize_matches ms
                     (AList.update document_id
                        (case map_of sanitized_reference document_id of
                           Some old \<Rightarrow> old @ txt
                         | None \<Rightarrow> txt)
                        sanitized_reference))))"

definition get_sanitized_reference :: "env \<Rightarrow> QueryResponse list \<Rightarrow> string" where
  "get_sanitized_reference env pinecone_references =
     json_dumps env
       (foldl (\<lambda>sanitized_reference r. sanitize_matches (matches r) sanitized_reference)
          [] pinecone_references)"

text \<open>\<^verbatim>\<open>range(0, n, 8192)\<close> has \<open>(n + 8191) div 8192\<close> elements, the multiples of 8192.\<close>

definition split_text :: "string \<Rightarrow> string list" where
  "split_text txt =
     (let n = length txt; number_of_chars = 8192
      in map (\<lambda>k. take number_of_chars (drop (k * number_of_chars) txt))
           [0 ..< (n + (number_of_chars - 1)) div number_of_chars])"

text \<open>The loop of lines 130 to 136: the first failure is raised again.\<close>

fun embed_parts ::
  "env \<Rightarrow> string list \<Rightarrow> string \<Rightarrow> world \<Rightarrow> (exn + rat list list list) \<times> world" where
  "embed_parts env [] openai_key w = (Inr [], w)"
| "embed_parts env (part # parts) openai_key w =
     (let w = log_call (Call_get_embedding [part]) w
      in case get_embedding env [part] openai_key of
           Inl e \<Rightarrow> (Inl (Exception (str_exn e)), w)
         | Inr embedding \<Rightarrow>
             (case embed_parts env parts openai_key w of
                (Inl e, w) \<Rightarrow> (Inl e, w)
              | (Inr embeddings, w) \<Rightarrow> (Inr (embedding # embeddings), w)))"

text \<open>The loop of lines 140 to 147.\<close>

fun query_embeddings ::
  "env \<Rightarrow> rat list list list \<Rightarrow> nat \<Rightarrow> string \<Rightarrow> world \<Rightarrow> (exn + QueryResponse list) \<times> world" where
  "query_embeddings env [] top_k namespace w = (Inr [], w)"
| "query_embeddings env (embedding # embeddings) top_k namespace w =
     (let w = log_call (Call_pinecone_query top_k namespace) w
      in case pinecone_query env embedding top_k namespace of
           Inl e \<Rightarrow> (Inl e, w)
         | Inr similar \<Rightarrow>
             (case query_embeddings env embeddings top_k namespace w of
                (Inl e, w) \<Rightarrow> (Inl e, w)
              | (Inr pinecone_references, w) \<Rightarrow> (Inr (similar # pinecone_references), w)))"

definition get_reference ::
  "env \<Rightarrow> string \<Rightarrow> string \<Rightarrow> string \<Rightarrow> nat \<Rightarrow> world \<Rightarrow> (exn + reference) \<times> world" where
  "get_reference env txt openai_key namespace top_k w =
     (let num_tokens = num_tokens_from_string env txt ''cl100k_base'';
          (embeddings, w) =
            (if num_tokens < 8192 then
               (let w = log_call (Call_get_embedding [txt]) w
                in case get_embedding env [txt] openai_key of
                     Inl e \<Rightarrow> (Inl (Inr (Ref_exception (str_exn e))), w)
                   | Inr embedding \<Rightarrow> (Inr [embedding], w))
             else
               (case embed_parts env (split_text txt) openai_key w of
                  (Inl e, w) \<Rightarrow> (Inl (Inl e), w)
                | (Inr embeddings, w) \<Rightarrow> (Inr embeddings, w)))
      in case embeddings of
           Inl early \<Rightarrow> (early, w)
         | Inr embeddings \<Rightarrow>
             (case query_embeddings env embeddings top_k namespace w of
                (Inl e, w) \<Rightarrow> (Inl e, w)
              | (Inr pinecone_references, w) \<Rightarrow>
                  (Inr (Ref_str (get_sanitized_reference env pinecone_references)), w)))"

subsection \<open>converse (lines 237 to 415)\<close>

text \<open>How a run of the generator stands: it came to its end, an exception left it, or
  its loop is still turning when the count of iterations given to the model is used up.\<close>

datatype outcome = Finished | Raised exn | Running

text \<open>The dictionary of \<^verbatim>\<open>create_json_response\<close>; the yielded text is
  \<^verbatim>\<open>"data: " + json.dumps(json_data) + "\n\n"\<close>.\<close>

definition create_json_response ::
  "string \<Rightarrow> string \<Rightarrow> string \<Rightarrow> string \<Rightarrow> bool \<Rightarrow> string option \<Rightarrow> json_data" where
  "create_json_response input_text chat_id' delta message stop ayushma_voice =
     \<lparr>j_chat = chat_id', j_input = input_text, j_delta = delta, j_message = message,
      j_stop = stop, j_ayushma_voice = ayushma_voice\<rparr>"

text \<open>\<^verbatim>\<open>token_queue.get(True, timeout=10)\<close>: the oldest value; on a queue that stays
  empty for the ten seconds, \<^verbatim>\<open>queue.Empty\<close>, whose text is empty.\<close>

definition queue_get :: "qval list \<Rightarrow> exn + qval \<times> qval list" where
  "queue_get token_queue =
     (case token_queue of [] \<Rightarrow> Inl (Exception []) | v # rest \<Rightarrow> Inr (v, rest))"

text \<open>\<^verbatim>\<open>chat_response += next_token\<close>: a value that is not a string raises
  \<^verbatim>\<open>TypeError\<close>.\<close>

definition str_iadd :: "string \<Rightarrow> qval \<Rightarrow> exn + string" where
  "str_iadd chat_response next_token =
     (case next_token of
        Token s \<Rightarrow> Inr (chat_response @ s)
      | RESPONSE_END \<Rightarrow>
          Inl (Exception (''can only concatenate str (not '' @ [CHR 0x22] @ ''object''
                          @ [CHR 0x22] @ '') to str''))
      | Object ty \<Rightarrow>
          Inl (Exception (''can only concatenate str (not '' @ [CHR 0x22] @ ty
                          @ [CHR 0x22] @ '') to str'')))"

definition prepend_event ::
  "event \<Rightarrow> outcome \<times> event list \<times> stats \<times> world \<Rightarrow> outcome \<times> event list \<times> stats \<times> world" where
  "prepend_event ev r = (case r of (out, evs, stats, w) \<Rightarrow> (out, ev # evs, stats, w))"

text \<open>The \<^verbatim>\<open>while True\<close> loop of lines 345 to 386, one iteration for each unit of
  \<open>fuel\<close>. \<open>feed\<close> is what the producer task is still to put on the queue: its first
  batch arrives before this iteration's test \<^verbatim>\<open>token_queue.empty()\<close>. The result is
  how the loop was left (\<open>Finished\<close> is \<^verbatim>\<open>break\<close>), the events yielded, and the
  dictionary and the world as they then are.\<close>

fun token_loop ::
  "nat \<Rightarrow> env \<Rightarrow> string \<Rightarrow> Chat \<Rightarrow> nat \<Rightarrow> string \<Rightarrow> temperature \<Rightarrow> string \<Rightarrow> bool
     \<Rightarrow> qval list list \<Rightarrow> qval list \<Rightarrow> nat \<Rightarrow> string \<Rightarrow> stats \<Rightarrow> world
     \<Rightarrow> outcome \<times> event list \<times> stats \<times> world" where
  "token_loop 0 env local_translated_text chat match_number user_language temperature
       language generate_audio feed token_queue skip_token chat_response stats w =
     (Running, [], stats, w)"
| "token_loop (Suc fuel) env local_translated_text chat match_number user_language temperature
       language generate_audio feed token_queue skip_token chat_response stats w =
     (let token_queue = token_queue @ (case feed of [] \<Rightarrow> [] | batch # _ \<Rightarrow> batch);
          feed = (case feed of [] \<Rightarrow> [] | _ # later \<Rightarrow> later)
      in if token_queue = [] then
           token_loop fuel env local_translated_text chat match_number user_language
             temperature language generate_audio feed token_queue skip_token chat_response
             stats w
         else
           (case queue_get token_queue of
              Inl e \<Rightarrow> (Raised e, [], stats, w)
            | Inr (next_token, token_queue) \<Rightarrow>
                if skip_token > 0 then
                  token_loop fuel env local_translated_text chat match_number user_language
                    temperature language generate_audio feed token_queue (skip_token - 1)
                    chat_response stats w
                else if next_token = RESPONSE_END then
                  (let (t, w) = time_time w;
                       stats = stats(''response_end_time'' \<mapsto> t)
                   in case handle_post_response env chat_response chat match_number
                             user_language temperature stats language generate_audio w of
                        (Inl e, stats, w) \<Rightarrow> (Raised e, [], stats, w)
                      | (Inr (translated_chat_response, url, chat_message), stats, w) \<Rightarrow>
                          (Finished,
                           [Yield_data
                              (create_json_response local_translated_text
                                 (chat_external_id chat) [] translated_chat_response True url)],
                           stats, w))
                else
                  (case str_iadd chat_response next_token of
                     Inl e \<Rightarrow> (Raised e, [], stats, w)
                   | Inr chat_response \<Rightarrow>
                       prepend_event
                         (Yield_data
                            (create_json_response local_translated_text
                               (chat_external_id chat)
                               (case next_token of Token s \<Rightarrow> s | _ \<Rightarrow> [])
                               chat_response False None))
                         (token_loop fuel env local_translated_text chat match_number
                            user_language temperature language generate_audio feed
                            token_queue skip_token chat_response stats w))))"

text \<open>The handler of lines 387 to 415. The call of \<^verbatim>\<open>translate_text\<close> in it is not
  inside a \<^verbatim>\<open>try\<close> of its own.\<close>

definition converse_except ::
  "env \<Rightarrow> exn \<Rightarrow> string \<Rightarrow> Chat \<Rightarrow> string \<Rightarrow> string \<Rightarrow> stats \<Rightarrow> world
     \<Rightarrow> outcome \<times> event list \<times> stats \<times> world" where
  "converse_except env e local_translated_text chat user_language language stats w =
     (let error_text = str_exn e;
          (translated, w) =
            (if user_language \<noteq> ''en-IN'' then
               (translate_text env user_language error_text,
                log_call (Call_translate_text user_language error_text) w)
             else (Inr error_text, w))
      in case translated of
           Inl e' \<Rightarrow> (Raised e', [], stats, w)
         | Inr translated_error_text \<Rightarrow>
             (let (error_message, w) =
                    ChatMessage_create
                      \<lparr>cm_id = 0, cm_message = Some translated_error_text,
                       cm_original_message = error_text, cm_chat = chat_id chat,
                       cm_messageType = AYUSHMA, cm_top_k = None, cm_temperature = None,
                       cm_language = language, cm_meta = timing_meta stats,
                       cm_ayushma_audio_url = None\<rparr> w
              in (Finished,
                  [Yield_data
                     (create_json_response local_translated_text (chat_external_id chat) []
                        (str_exn e) True None)],
                  stats, w)))"

text \<open>Lines 285 to 295: the earlier messages of the chat, in the order of the table
  (rows are appended as they are created), as the model's history.\<close>

definition chat_history_of :: "ChatMessage list \<Rightarrow> history_message list" where
  "chat_history_of previous_messages =
     concat (map (\<lambda>message.
        if cm_messageType message = USER then
          [HumanMessage (''Nurse: '' @ str_of_opt (cm_message message))]
        else if cm_messageType message = AYUSHMA then
          [AIMessage (''Ayushma: '' @ str_of_opt (cm_message message))]
        else []) previous_messages)"

text \<open>Lines 269 to 276: the reference text of the turn.\<close>

definition lookup_reference ::
  "env \<Rightarrow> string option \<Rightarrow> Chat \<Rightarrow> string \<Rightarrow> string \<Rightarrow> nat \<Rightarrow> world
     \<Rightarrow> (exn + reference) \<times> world" where
  "lookup_reference env references chat english_text openai_key match_number w =
     (if truthy references then (Inr (Ref_str (str_of_opt references)), w)
      else
        (case chat_project chat of
           None \<Rightarrow> (Inr (Ref_str []), w)
         | Some project \<Rightarrow>
             if truthy (project_external_id project) then
               get_reference env english_text openai_key
                 (str_of_opt (project_external_id project)) match_number w
             else (Inr (Ref_str []), w)))"

text \<open>Lines 297 to 318: the branch \<^verbatim>\<open>stream == False\<close>.\<close>

definition converse_once ::
  "env \<Rightarrow> llm_args \<Rightarrow> Chat \<Rightarrow> nat \<Rightarrow> string \<Rightarrow> temperature \<Rightarrow> string \<Rightarrow> bool \<Rightarrow> stats
     \<Rightarrow> world \<Rightarrow> outcome \<times> event list \<times> stats \<times> world" where
  "converse_once env args chat match_number user_language temperature language generate_audio
       stats w =
     (let w = log_call (Call_get_response args) w
      in case get_response env args of
           Inl e \<Rightarrow> (Raised e, [], stats, w)
         | Inr response \<Rightarrow>
             (let chat_response = str_replace response ''Ayushma: '' [];
                  (t, w) = time_time w;
                  stats = stats(''response_end_time'' \<mapsto> t)
              in case handle_post_response env chat_response chat match_number
                        user_language temperature stats language generate_audio w of
                   (Inl e, stats, w) \<Rightarrow> (Raised e, [], stats, w)
                 | (Inr (translated_chat_response, url, chat_message), stats, w) \<Rightarrow>
                     (Finished, [Yield_message chat_message], stats, w)))"

text \<open>Lines 320 to 415: the streaming branch, the loop inside \<^verbatim>\<open>try\<close> and its
  handler.\<close>

definition converse_stream ::
  "nat \<Rightarrow> env \<Rightarrow> llm_args \<Rightarrow> string \<Rightarrow> Chat \<Rightarrow> nat \<Rightarrow> string \<Rightarrow> temperature \<Rightarrow> string
     \<Rightarrow> bool \<Rightarrow> stats \<Rightarrow> world \<Rightarrow> outcome \<times> event list \<times> stats \<times> world" where
  "converse_stream fuel env args local_translated_text chat match_number user_language
       temperature language generate_audio stats w =
     (let w = log_call (Call_get_aresponse args) w;
          chat_response = [];
          skip_token = length ''Ayushma: ''
      in case token_loop fuel env local_translated_text chat match_number user_language
                temperature language generate_audio (get_aresponse env args) []
                skip_token chat_response stats w of
           (Raised e, evs, stats, w) \<Rightarrow>
             (case converse_except env e local_translated_text chat user_language
                     language stats w of
                (out, evs', stats, w) \<Rightarrow> (out, evs @ evs', stats, w))
         | r \<Rightarrow> r)"

text \<open>The body of \<^verbatim>\<open>converse\<close>, run until the generator is exhausted, on the
  dictionary \<open>stats\<close> it was given or took by default. \<open>fuel\<close> bounds the iterations
  of the streaming loop only.\<close>

definition converse_body ::
  "nat \<Rightarrow> env \<Rightarrow> string \<Rightarrow> string \<Rightarrow> string option \<Rightarrow> Chat \<Rightarrow> nat \<Rightarrow> string \<Rightarrow> temperature
     \<Rightarrow> stats \<Rightarrow> bool \<Rightarrow> string option \<Rightarrow> bool \<Rightarrow> world
     \<Rightarrow> outcome \<times> event list \<times> stats \<times> world" where
  "converse_body fuel env english_text local_translated_text openai_key chat match_number
       user_language temperature stats stream references generate_audio w =
     (case openai_key of
        None \<Rightarrow>
          (Raised (Exception ''OpenAI-Key header is required to create a chat or converse''),
           [], stats, w)
      | Some key \<Rightarrow>
     if key = [] then
       (Raised (Exception ''OpenAI-Key header is required to create a chat or converse''),
        [], stats, w)
     else
     (let english_text = str_replace english_text [CHR 0x0A] '' '';
          language = (case str_split user_language CHR ''-'' of [] \<Rightarrow> [] | l # _ \<Rightarrow> l);
          (nurse_query, w) =
            ChatMessage_create
              \<lparr>cm_id = 0, cm_message = Some local_translated_text,
               cm_original_message = english_text, cm_chat = chat_id chat,
               cm_messageType = USER, cm_top_k = None, cm_temperature = None,
               cm_language = language,
               cm_meta = [(''translate_start'', stats ''request_translation_start_time''),
                          (''translate_end'', stats ''request_translation_end_time'')],
               cm_ayushma_audio_url = None\<rparr> w;
          (t, w) = time_time w;
          stats = stats(''reference_start_time'' \<mapsto> t)
      in case lookup_reference env references chat english_text key match_number w of
           (Inl e, w) \<Rightarrow> (Raised e, [], stats, w)
         | (Inr reference, w) \<Rightarrow>
     (let (t, w) = time_time w;
          stats = stats(''reference_end_time'' \<mapsto> t);
          (t, w) = time_time w;
          stats = stats(''response_start_time'' \<mapsto> t);
          prompt =
            (if truthy (chat_prompt chat) then chat_prompt chat
             else (case chat_project chat of
                     None \<Rightarrow> None
                   | Some project \<Rightarrow> project_prompt project));
          previous_messages =
            filter (\<lambda>m. cm_chat m = chat_id chat \<and> cm_id m \<noteq> cm_id nurse_query)
              (ChatMessage_objects w);
          chat_history = chat_history_of previous_messages;
          args = \<lparr>llm_openai_api_key = key, llm_prompt_template = prompt,
                  llm_temperature = temperature, llm_user_msg = english_text,
                  llm_reference = reference, llm_chat_history = chat_history\<rparr>
      in if \<not> stream then
           converse_once env args chat match_number user_language temperature language
             generate_audio stats w
         else
           converse_stream fuel env args local_translated_text chat match_number
             user_language temperature language generate_audio stats w)))"

text \<open>\<^verbatim>\<open>stats={}\<close> in the signature: the default is one dictionary, made when the
  function is defined. \<open>stats_arg = None\<close> is a call that leaves the argument out;
  the body then works on that one dictionary, which keeps what it wrote.\<close>

definition converse ::
  "nat \<Rightarrow> env \<Rightarrow> string \<Rightarrow> string \<Rightarrow> string option \<Rightarrow> Chat \<Rightarrow> nat \<Rightarrow> string \<Rightarrow> temperature
     \<Rightarrow> stats option \<Rightarrow> bool \<Rightarrow> string option \<Rightarrow> bool \<Rightarrow> world
     \<Rightarrow> outcome \<times> event list \<times> stats \<times> world" where
  "converse fuel env english_text local_translated_text openai_key chat match_number
       user_language temperature stats_arg stream references generate_audio w =
     (case stats_arg of
        Some stats \<Rightarrow>
          converse_body fuel env english_text local_translated_text openai_key chat
            match_number user_language temperature stats stream references generate_audio w
      | None \<Rightarrow>
          (case converse_body fuel env english_text local_translated_text openai_key chat
                  match_number user_language temperature (converse_default_stats w) stream
                  references generate_audio w of
             (out, evs, stats, w) \<Rightarrow> (out, evs, stats, w\<lparr>converse_default_stats := stats\<rparr>)))"

subsection \<open>Observations and example inputs\<close>

text \<open>The calls that synthesise or upload audio.\<close>

fun is_audio_call :: "call \<Rightarrow> bool" where
  "is_audio_call (Call_text_to_speech t l) = True"
| "is_audio_call (Call_upload_file b k) = True"
| "is_audio_call c = False"

text \<open>A Delta event: a data line that does not stop the stream and carries no audio.\<close>

fun is_delta :: "event \<Rightarrow> bool" where
  "is_delta (Yield_data j) = (\<not> j_stop j \<and> j_ayushma_voice j = None)"
| "is_delta (Yield_message m) = False"

text \<open>Two relations between the dictionary and world before a step and after it. The
  first: the default dictionary is the same object, no key was removed, and rows were
  only appended. The second: no audio call was made, the appended rows carry no audio
  reference, and the four audio marks are as before.\<close>

definition stats_kept :: "stats \<Rightarrow> world \<Rightarrow> stats \<Rightarrow> world \<Rightarrow> bool" where
  "stats_kept stats w stats' w' =
     (converse_default_stats w' = converse_default_stats w \<and> dom stats \<subseteq> dom stats' \<and>
      (\<exists>new. ChatMessage_objects w' = ChatMessage_objects w @ new))"

definition audio_untouched :: "stats \<Rightarrow> world \<Rightarrow> stats \<Rightarrow> world \<Rightarrow> bool" where
  "audio_untouched stats w stats' w' =
     (filter is_audio_call (calls w') = filter is_audio_call (calls w) \<and>
      (\<exists>new. ChatMessage_objects w' = ChatMessage_objects w @ new \<and>
             list_all (\<lambda>r. cm_ayushma_audio_url r = None) new) \<and>
      stats' ''tts_start_time'' = stats ''tts_start_time'' \<and>
      stats' ''tts_end_time'' = stats ''tts_end_time'' \<and>
      stats' ''upload_start_time'' = stats ''upload_start_time'' \<and>
      stats' ''upload_end_time'' = stats ''upload_end_time'')"

text \<open>The audio reference an event carries.\<close>

fun event_audio :: "event \<Rightarrow> string option" where
  "event_audio (Yield_data j) = j_ayushma_voice j"
| "event_audio (Yield_message m) = cm_ayushma_audio_url m"

text \<open>One order of iteration of a set: the distinct strings, each where it first
  occurs.\<close>

definition insertion_order :: "string list \<Rightarrow> string list" where
  "insertion_order xs = rev (remdups (rev xs))"

text \<open>Services that all succeed. The producer pushes the five tokens of the
  specification's scenario B and then the sentinel.\<close>

definition example_env :: env where
  "example_env =
     \<lparr>translate_text = (\<lambda>lang t. Inr (''<'' @ lang @ ''>'' @ t)),
      text_to_speech = (\<lambda>t l. Inr (Some [1, 2, 3])),
      upload_file = (\<lambda>b k. Inr (''https://s3/'' @ k)),
      Document_get = (\<lambda>d. if d = ''12'' then Inr (Some 12) else Inr None),
      uuid4 = ''u'',
      num_tokens_from_string = (\<lambda>s e. length s),
      get_embedding = (\<lambda>ts k. Inr [[0]]),
      pinecone_query = (\<lambda>e k n. Inr \<lparr>matches = []\<rparr>),
      json_dumps = (\<lambda>d. concat (map (\<lambda>(k, v). k @ '':'' @ v) d)),
      get_response = (\<lambda>a. Inr ''Ayushma: Hi there''),
      get_aresponse = (\<lambda>a. [[Token ''Ayushma:'', Token '' Hi'', Token '' there'',
                                Token ''References:'', Token '' 12, 7'', RESPONSE_END]]),
      set_order = insertion_order\<rparr>"

text \<open>The same services, with a translation service that always fails.\<close>

definition failing_translation_env :: env where
  "failing_translation_env =
     example_env\<lparr>translate_text := (\<lambda>lang t. Inl (Exception ''Translation failed''))\<rparr>"

text \<open>A producer that fails in mid-stream, with the failing translation service: after
  nine values that the consumer discards and one token, it pushes an exception object
  in place of the sentinel.\<close>

definition broken_stream_env :: env where
  "broken_stream_env =
     failing_translation_env
       \<lparr>get_aresponse := (\<lambda>a. [[Token ''A'', Token ''y'', Token ''u'', Token ''s'', Token ''h'',
                                  Token ''m'', Token ''a'', Token '':'', Token '' '',
                                  Token '' partial'', Object ''Exception'']])\<rparr>"

text \<open>The same services, with a speech synthesis that always fails, and with an upload
  that always fails.\<close>

definition failing_speech_env :: env where
  "failing_speech_env =
     example_env\<lparr>text_to_speech := (\<lambda>t l. Inl (Exception ''Speech synthesis failed''))\<rparr>"

definition failing_upload_env :: env where
  "failing_upload_env =
     example_env\<lparr>upload_file := (\<lambda>b k. Inl (Exception ''Upload failed''))\<rparr>"

text \<open>A producer that pushes the prefix one character at a time, nine values, and then
  two tokens and the sentinel: the stream reaches its end.\<close>

definition spelled_stream_env :: env where
  "spelled_stream_env =
     example_env
       \<lparr>get_aresponse := (\<lambda>a. [[Token ''A'', Token ''y'', Token ''u'', Token ''s'', Token ''h'',
                                  Token ''m'', Token ''a'', Token '':'', Token '' ''],
                                 [Token ''Hi'', Token '' there'', RESPONSE_END]])\<rparr>"

text \<open>A producer that never pushes anything, and one whose stream is shorter than the
  skip count: two tokens, then the sentinel.\<close>

definition silent_env :: env where
  "silent_env = example_env\<lparr>get_aresponse := (\<lambda>a. [])\<rparr>"

definition short_stream_env :: env where
  "short_stream_env =
     example_env\<lparr>get_aresponse := (\<lambda>a. [[Token ''Ayushma:'', Token '' Hi''], [RESPONSE_END]])\<rparr>"

definition example_chat :: Chat where
  "example_chat =
     \<lparr>chat_id = ''1'', chat_external_id = ''c-1'', chat_prompt = None, chat_project = None\<rparr>"

text \<open>A fresh process: no rows, no calls made, the default dictionary still empty.\<close>

definition empty_world :: world where
  "empty_world =
     \<lparr>ChatMessage_objects = [], reference_documents = [], calls = [], clock = 0,
      converse_default_stats = Map.empty\<rparr>"

definition example_message :: ChatMessage where
  "example_message =
     \<lparr>cm_id = 0, cm_message = None, cm_original_message = ''Hi there'', cm_chat = ''1'',
      cm_messageType = AYUSHMA, cm_top_k = Some 3, cm_temperature = Some 0,
      cm_language = ''en'', cm_meta = [], cm_ayushma_audio_url = None\<rparr>"

section \<open>Properties\<close>

subsection \<open>Auxiliary facts\<close>

lemma str_find_None_iff: "str_find s sub = None \<longleftrightarrow> \<not> sublist sub s"
  by (induction s) (auto simp: sublist_Cons_right)

text \<open>The text before the first occurrence holds no occurrence, and stripping only
  removes characters.\<close>

lemma str_find_first:
  "str_find s sub = Some i \<Longrightarrow> sub \<noteq> [] \<Longrightarrow> \<not> sublist sub (take i s)"
proof (induction s arbitrary: i)
  case Nil
  then show ?case by simp
next
  case (Cons c cs)
  show ?case
  proof (cases "prefix sub (c # cs)")
    case True
    with Cons.prems show ?thesis by simp
  next
    case False
    with Cons.prems obtain j where j: "str_find cs sub = Some j" "i = Suc j"
      by auto
    have "\<not> prefix sub (c # take j cs)"
    proof
      assume "prefix sub (c # take j cs)"
      moreover have "prefix (c # take j cs) (c # cs)" by (simp add: take_is_prefix)
      ultimately have "prefix sub (c # cs)" by (rule prefix_order.trans)
      with False show False by simp
    qed
    with Cons.IH [OF j(1) Cons.prems(2)] j(2) show ?thesis
      by (simp add: sublist_Cons_right)
  qed
qed

lemma sublist_str_strip: "sublist (str_strip s) s"
proof -
  let ?d = "dropWhile (\<lambda>c. c \<in> set py_whitespace) s"
  have "suffix (dropWhile (\<lambda>c. c \<in> set py_whitespace) (rev ?d)) (rev ?d)"
    by (rule suffix_dropWhile)
  then have "prefix (rev (dropWhile (\<lambda>c. c \<in> set py_whitespace) (rev ?d))) ?d"
    by (simp add: suffix_to_prefix)
  then have "sublist (str_strip s) ?d"
    by (simp add: str_strip_def str_strip_chars_def)
  moreover have "sublist ?d s" by (simp add: suffix_dropWhile)
  ultimately show ?thesis by (rule sublist_order.order.trans)
qed

lemma add_docs_frame:
  "ChatMessage_objects (add_docs env m ids w) = ChatMessage_objects w"
  "clock (add_docs env m ids w) = clock w"
  "converse_default_stats (add_docs env m ids w) = converse_default_stats w"
  "filter is_audio_call (calls (add_docs env m ids w)) = filter is_audio_call (calls w)"
  by (induction ids arbitrary: w)
     (auto simp: reference_documents_add_def log_call_def split: sum.splits option.splits)

text \<open>When no lookup raises anything but \<^verbatim>\<open>DoesNotExist\<close>, the loop attaches the documents
  of the ids that resolve, so the order in which the set is visited does not matter.\<close>

lemma add_docs_reference_set:
  "\<forall>d\<in>set ids. \<exists>r. Document_get env d = Inr r \<Longrightarrow>
     set (reference_documents (add_docs env m ids w)) =
       set (reference_documents w) \<union>
       {(cm_id m, doc) | doc d. d \<in> set ids \<and> Document_get env d = Inr (Some doc)}"
proof (induction ids arbitrary: w)
  case Nil
  then show ?case by simp
next
  case (Cons d ids)
  from Cons.prems obtain r where r: "Document_get env d = Inr r" by auto
  from Cons.prems have rest: "\<forall>d\<in>set ids. \<exists>r. Document_get env d = Inr r" by simp
  show ?case
  proof (cases r)
    case None
    with r Cons.IH [OF rest, of w] show ?thesis by auto
  next
    case (Some doc)
    with r Cons.IH [OF rest, of "reference_documents_add m doc w"] show ?thesis
      by (auto simp: reference_documents_add_def log_call_def)
  qed
qed

lemma add_docs_any_order:
  assumes "\<forall>d\<in>set ids. \<exists>r. Document_get env d = Inr r" and "set ids' = set ids"
  shows "set (reference_documents (add_docs env m ids' w))
         = set (reference_documents (add_docs env m ids w))"
proof -
  from assms have "\<forall>d\<in>set ids'. \<exists>r. Document_get env d = Inr r" by simp
  from add_docs_reference_set [OF this] add_docs_reference_set [OF assms(1)] assms(2)
  show ?thesis by simp
qed

text \<open>The two ways \<^verbatim>\<open>add_reference_documents\<close> ends: it returns at once, or it
  replaces the text and saves, after a loop that touches only the relation.\<close>

lemma add_reference_documents_cases:
  obtains (no_marker) "add_reference_documents env m w = (m, w)"
  | (marker) t w1 where
      "add_reference_documents env m w =
         (m\<lparr>cm_original_message := t\<rparr>, ChatMessage_save (m\<lparr>cm_original_message := t\<rparr>) w1)"
      "ChatMessage_objects w1 = ChatMessage_objects w"
      "clock w1 = clock w"
      "converse_default_stats w1 = converse_default_stats w"
      "filter is_audio_call (calls w1) = filter is_audio_call (calls w)"
proof (cases "str_find (cm_original_message m) ''References:''")
  case None
  then have "add_reference_documents env m w = (m, w)"
    by (simp add: add_reference_documents_def)
  then show ?thesis by (rule no_marker)
next
  case (Some i)
  show ?thesis
    by (rule marker [of "str_strip (take i (cm_original_message m))"
          "add_docs env m (set_order env (filter (\<lambda>doc_id. doc_id \<noteq> [])
            (map (\<lambda>doc_id. str_strip_chars doc_id doc_id_strip_chars)
               (str_split (drop (i + length ''References:'') (cm_original_message m))
                  CHR '','')))) w"])
       (simp_all add: add_reference_documents_def Some Let_def add_docs_frame)
qed

lemma translate_response_frame:
  assumes "translate_response env user_language m stats w = (r, stats', w')"
  shows "ChatMessage_objects w' = ChatMessage_objects w"
    and "converse_default_stats w' = converse_default_stats w"
    and "dom stats \<subseteq> dom stats'"
    and "filter is_audio_call (calls w') = filter is_audio_call (calls w)"
    and "stats' ''tts_start_time'' = stats ''tts_start_time''"
    and "stats' ''tts_end_time'' = stats ''tts_end_time''"
    and "stats' ''upload_start_time'' = stats ''upload_start_time''"
    and "stats' ''upload_end_time'' = stats ''upload_end_time''"
  using assms
  by (auto simp: translate_response_def Let_def time_time_def log_call_def
      split: if_splits sum.splits)

lemma synthesize_voice_frame:
  assumes "synthesize_voice env generate_audio translated user_language stats w = (r, stats', w')"
  shows "ChatMessage_objects w' = ChatMessage_objects w"
    and "converse_default_stats w' = converse_default_stats w"
    and "dom stats \<subseteq> dom stats'"
  using assms
  by (auto simp: synthesize_voice_def Let_def time_time_def log_call_def
      split: if_splits sum.splits)

lemma synthesize_voice_off:
  "synthesize_voice env False translated user_language stats w = (Inr None, stats, w)"
  by (simp add: synthesize_voice_def)

lemma upload_voice_frame:
  assumes "upload_voice env chat ayushma_voice stats w = (r, stats', w')"
  shows "ChatMessage_objects w' = ChatMessage_objects w"
    and "converse_default_stats w' = converse_default_stats w"
    and "dom stats \<subseteq> dom stats'"
  using assms
  by (auto simp: upload_voice_def Let_def time_time_def log_call_def
      split: if_splits sum.splits option.splits)

lemma upload_voice_None:
  "upload_voice env chat None stats w = (Inr None, stats, w)"
  by (simp add: upload_voice_def)

text \<open>The four ways \<^verbatim>\<open>handle_post_response\<close> ends: one of its three services raised, or
  the message was saved.\<close>

lemma handle_post_response_cases:
  assumes "handle_post_response env chat_response chat match_number user_language temperature
             stats language generate_audio w = (res, stats', w')"
  obtains
    (translation_raised) m0 m w1 e where
      "m0 = \<lparr>cm_id = length (ChatMessage_objects w), cm_message = None,
              cm_original_message = chat_response,
              cm_chat = chat_id chat, cm_messageType = AYUSHMA, cm_top_k = Some match_number,
              cm_temperature = Some temperature, cm_language = language, cm_meta = [],
              cm_ayushma_audio_url = None\<rparr>"
      "add_reference_documents env m0
         (log_call (Db_create (length (ChatMessage_objects w)))
            (w\<lparr>ChatMessage_objects := ChatMessage_objects w @ [m0]\<rparr>)) = (m, w1)"
      "translate_response env user_language m stats w1 = (Inl e, stats', w')"
      "res = Inl e"
  | (speech_raised) m0 m w1 translated stats1 w2 e where
      "m0 = \<lparr>cm_id = length (ChatMessage_objects w), cm_message = None,
              cm_original_message = chat_response,
              cm_chat = chat_id chat, cm_messageType = AYUSHMA, cm_top_k = Some match_number,
              cm_temperature = Some temperature, cm_language = language, cm_meta = [],
              cm_ayushma_audio_url = None\<rparr>"
      "add_reference_documents env m0
         (log_call (Db_create (length (ChatMessage_objects w)))
            (w\<lparr>ChatMessage_objects := ChatMessage_objects w @ [m0]\<rparr>)) = (m, w1)"
      "translate_response env user_language m stats w1 = (Inr translated, stats1, w2)"
      "synthesize_voice env generate_audio translated user_language stats1 w2
         = (Inl e, stats', w')"
      "res = Inl e"
  | (upload_raised) m0 m w1 translated stats1 w2 voice stats2 w3 e where
      "m0 = \<lparr>cm_id = length (ChatMessage_objects w), cm_message = None,
              cm_original_message = chat_response,
              cm_chat = chat_id chat, cm_messageType = AYUSHMA, cm_top_k = Some match_number,
              cm_temperature = Some temperature, cm_language = language, cm_meta = [],
              cm_ayushma_audio_url = None\<rparr>"
      "add_reference_documents env m0
         (log_call (Db_create (length (ChatMessage_objects w)))
            (w\<lparr>ChatMessage_objects := ChatMessage_objects w @ [m0]\<rparr>)) = (m, w1)"
      "translate_response env user_language m stats w1 = (Inr translated, stats1, w2)"
      "synthesize_voice env generate_audio translated user_language stats1 w2
         = (Inr voice, stats2, w3)"
      "upload_voice env chat voice stats2 w3 = (Inl e, stats', w')"
      "res = Inl e"
  | (saved) m0 m w1 translated stats1 w2 voice stats2 w3 url w4 where
      "m0 = \<lparr>cm_id = length (ChatMessage_objects w), cm_message = None,
              cm_original_message = chat_response,
              cm_chat = chat_id chat, cm_messageType = AYUSHMA, cm_top_k = Some match_number,
              cm_temperature = Some temperature, cm_language = language, cm_meta = [],
              cm_ayushma_audio_url = None\<rparr>"
      "add_reference_documents env m0
         (log_call (Db_create (length (ChatMessage_objects w)))
            (w\<lparr>ChatMessage_objects := ChatMessage_objects w @ [m0]\<rparr>)) = (m, w1)"
      "translate_response env user_language m stats w1 = (Inr translated, stats1, w2)"
      "synthesize_voice env generate_audio translated user_language stats1 w2
         = (Inr voice, stats2, w3)"
      "upload_voice env chat voice stats2 w3 = (Inr url, stats', w4)"
      "res = Inr (translated, url,
                  m\<lparr>cm_message := Some translated, cm_ayushma_audio_url := url,
                    cm_meta := timing_meta stats'\<rparr>)"
      "w' = ChatMessage_save
              (m\<lparr>cm_message := Some translated, cm_ayushma_audio_url := url,
                 cm_meta := timing_meta stats'\<rparr>) w4"
  using assms
  unfolding handle_post_response_def ChatMessage_create_def Let_def
  by (simp split: prod.splits sum.splits)


lemma add_reference_documents_after_create:
  assumes "add_reference_documents env m0
             (log_call c (w\<lparr>ChatMessage_objects := ChatMessage_objects w @ [m0]\<rparr>)) = (m, w1)"
    and "cm_id m0 = length (ChatMessage_objects w)"
  shows "\<exists>t. m = m0\<lparr>cm_original_message := t\<rparr>"
    and "\<exists>t. ChatMessage_objects w1 = ChatMessage_objects w @ [m0\<lparr>cm_original_message := t\<rparr>]"
    and "converse_default_stats w1 = converse_default_stats w"
    and "filter is_audio_call (calls w1) = filter is_audio_call (calls w @ [c])"
    and "ChatMessage_objects w1 = ChatMessage_objects w @ [m]"
proof -
  let ?w0 = "log_call c (w\<lparr>ChatMessage_objects := ChatMessage_objects w @ [m0]\<rparr>)"
  have "(\<exists>t. m = m0\<lparr>cm_original_message := t\<rparr>) \<and>
        (\<exists>t. ChatMessage_objects w1 = ChatMessage_objects w @ [m0\<lparr>cm_original_message := t\<rparr>]) \<and>
        converse_default_stats w1 = converse_default_stats w \<and>
        filter is_audio_call (calls w1) = filter is_audio_call (calls w @ [c]) \<and>
        ChatMessage_objects w1 = ChatMessage_objects w @ [m]"
  proof (cases rule: add_reference_documents_cases [of env m0 ?w0])
    case no_marker
    with assms(1) have eq: "m = m0" "w1 = ?w0" by auto
    have "\<exists>t. m = m0\<lparr>cm_original_message := t\<rparr>"
      using eq(1) by (intro exI [of _ "cm_original_message m0"]) simp
    moreover have "\<exists>t. ChatMessage_objects w1
        = ChatMessage_objects w @ [m0\<lparr>cm_original_message := t\<rparr>]"
      using eq(2) by (intro exI [of _ "cm_original_message m0"]) (simp add: log_call_def)
    moreover have "converse_default_stats w1 = converse_default_stats w"
      "filter is_audio_call (calls w1) = filter is_audio_call (calls w @ [c])"
      "ChatMessage_objects w1 = ChatMessage_objects w @ [m]"
      using eq by (simp_all add: log_call_def)
    ultimately show ?thesis by blast
  next
    case (marker t wx)
    with assms(1) have "m = m0\<lparr>cm_original_message := t\<rparr>"
      "w1 = ChatMessage_save (m0\<lparr>cm_original_message := t\<rparr>) wx" by auto
    with marker(2-5) assms(2) show ?thesis
      by (auto simp: ChatMessage_save_def log_call_def)
  qed
  then show "\<exists>t. m = m0\<lparr>cm_original_message := t\<rparr>"
    and "\<exists>t. ChatMessage_objects w1 = ChatMessage_objects w @ [m0\<lparr>cm_original_message := t\<rparr>]"
    and "converse_default_stats w1 = converse_default_stats w"
    and "filter is_audio_call (calls w1) = filter is_audio_call (calls w @ [c])"
    and "ChatMessage_objects w1 = ChatMessage_objects w @ [m]"
    by blast+
qed

lemma handle_post_response_frame:
  assumes "handle_post_response env chat_response chat match_number user_language temperature
             stats language generate_audio w = (res, stats', w')"
  shows "converse_default_stats w' = converse_default_stats w"
    and "dom stats \<subseteq> dom stats'"
    and "\<exists>row. ChatMessage_objects w' = ChatMessage_objects w @ [row] \<and>
           (case res of
              Inl e \<Rightarrow> cm_message row = None \<and> cm_meta row = []
                        \<and> cm_ayushma_audio_url row = None
            | Inr (translated, url, chat_message) \<Rightarrow>
                row = chat_message \<and> cm_message row = Some translated
                \<and> cm_ayushma_audio_url row = url \<and> cm_meta row = timing_meta stats')"
proof -
  let ?rows = "\<exists>row. ChatMessage_objects w' = ChatMessage_objects w @ [row] \<and>
           (case res of
              Inl e \<Rightarrow> cm_message row = None \<and> cm_meta row = []
                        \<and> cm_ayushma_audio_url row = None
            | Inr (translated, url, chat_message) \<Rightarrow>
                row = chat_message \<and> cm_message row = Some translated
                \<and> cm_ayushma_audio_url row = url \<and> cm_meta row = timing_meta stats')"
  have "converse_default_stats w' = converse_default_stats w \<and> dom stats \<subseteq> dom stats' \<and> ?rows"
    using assms
  proof (cases rule: handle_post_response_cases)
    case (translation_raised m0 m w1 e)
    note a = add_reference_documents_after_create [OF translation_raised(2)]
    note t = translate_response_frame(1-3) [OF translation_raised(3)]
    have "converse_default_stats w' = converse_default_stats w"
      using a(3) t(2) translation_raised(1) by simp
    moreover have "dom stats \<subseteq> dom stats'" by (rule t(3))
    moreover have ?rows
      using a(2) t(1) translation_raised(1,4) by auto
    ultimately show ?thesis by blast
  next
    case (speech_raised m0 m w1 translated stats1 w2 e)
    note a = add_reference_documents_after_create [OF speech_raised(2)]
    note t = translate_response_frame(1-3) [OF speech_raised(3)]
    note v = synthesize_voice_frame [OF speech_raised(4)]
    have "converse_default_stats w' = converse_default_stats w"
      using a(3) t(2) v(2) speech_raised(1) by simp
    moreover have "dom stats \<subseteq> dom stats'"
      using t(3) v(3) by (rule order_trans)
    moreover have ?rows
      using a(2) t(1) v(1) speech_raised(1,5) by auto
    ultimately show ?thesis by blast
  next
    case (upload_raised m0 m w1 translated stats1 w2 voice stats2 w3 e)
    note a = add_reference_documents_after_create [OF upload_raised(2)]
    note t = translate_response_frame(1-3) [OF upload_raised(3)]
    note v = synthesize_voice_frame [OF upload_raised(4)]
    note u = upload_voice_frame [OF upload_raised(5)]
    have "converse_default_stats w' = converse_default_stats w"
      using a(3) t(2) v(2) u(2) upload_raised(1) by simp
    moreover have "dom stats \<subseteq> dom stats'"
      using t(3) v(3) u(3) by (meson order_trans)
    moreover have ?rows
      using a(2) t(1) v(1) u(1) upload_raised(1,6) by auto
    ultimately show ?thesis by blast
  next
    case (saved m0 m w1 translated stats1 w2 voice stats2 w3 url w4)
    note a = add_reference_documents_after_create [OF saved(2)]
    note t = translate_response_frame(1-3) [OF saved(3)]
    note v = synthesize_voice_frame [OF saved(4)]
    note u = upload_voice_frame [OF saved(5)]
    have "converse_default_stats w' = converse_default_stats w"
      using a(3) t(2) v(2) u(2) saved(1,7) by (simp add: ChatMessage_save_def log_call_def)
    moreover have "dom stats \<subseteq> dom stats'"
      using t(3) v(3) u(3) by (meson order_trans)
    moreover have ?rows
      using a(1,2) t(1) v(1) u(1) saved(1,6,7)
      by (auto simp: ChatMessage_save_def log_call_def)
    ultimately show ?thesis by blast
  qed
  then show "converse_default_stats w' = converse_default_stats w"
    and "dom stats \<subseteq> dom stats'" and ?rows
    by blast+
qed

lemma handle_post_response_no_audio:
  assumes "handle_post_response env chat_response chat match_number user_language temperature
             stats language False w = (res, stats', w')"
  shows "stats' ''tts_start_time'' = stats ''tts_start_time''"
    and "stats' ''tts_end_time'' = stats ''tts_end_time''"
    and "stats' ''upload_start_time'' = stats ''upload_start_time''"
    and "stats' ''upload_end_time'' = stats ''upload_end_time''"
    and "filter is_audio_call (calls w') = filter is_audio_call (calls w)"
    and "case res of Inl e \<Rightarrow> True | Inr (translated, url, chat_message) \<Rightarrow> url = None"
proof -
  have "stats' ''tts_start_time'' = stats ''tts_start_time'' \<and>
    stats' ''tts_end_time'' = stats ''tts_end_time'' \<and>
    stats' ''upload_start_time'' = stats ''upload_start_time'' \<and>
    stats' ''upload_end_time'' = stats ''upload_end_time'' \<and>
    filter is_audio_call (calls w') = filter is_audio_call (calls w) \<and>
    (case res of Inl e \<Rightarrow> True | Inr (translated, url, chat_message) \<Rightarrow> url = None)"
    using assms
  proof (cases rule: handle_post_response_cases)
    case (translation_raised m0 m w1 e)
    from add_reference_documents_after_create(4) [OF translation_raised(2)]
      translate_response_frame(4-8) [OF translation_raised(3)] translation_raised(1,4)
    show ?thesis by auto
  next
    case (speech_raised m0 m w1 translated stats1 w2 e)
    then show ?thesis by (simp add: synthesize_voice_off)
  next
    case (upload_raised m0 m w1 translated stats1 w2 voice stats2 w3 e)
    then show ?thesis by (simp add: synthesize_voice_off upload_voice_None)
  next
    case (saved m0 m w1 translated stats1 w2 voice stats2 w3 url w4)
    from saved(4) have "voice = None" "stats2 = stats1" "w3 = w2"
      by (simp_all add: synthesize_voice_off)
    with saved(5) have "url = None" "stats' = stats1" "w4 = w2"
      by (simp_all add: upload_voice_None)
    with add_reference_documents_after_create(4) [OF saved(2)]
      translate_response_frame(4-8) [OF saved(3)] saved(1,6,7)
    show ?thesis by (auto simp: ChatMessage_save_def log_call_def)
  qed
  then show "stats' ''tts_start_time'' = stats ''tts_start_time''"
    and "stats' ''tts_end_time'' = stats ''tts_end_time''"
    and "stats' ''upload_start_time'' = stats ''upload_start_time''"
    and "stats' ''upload_end_time'' = stats ''upload_end_time''"
    and "filter is_audio_call (calls w') = filter is_audio_call (calls w)"
    and "case res of Inl e \<Rightarrow> True | Inr (translated, url, chat_message) \<Rightarrow> url = None"
    by blast+
qed


text \<open>While the values pushed are no more than the skip count, every one of them is
  discarded, the sentinel too, and the loop goes on testing an empty queue.\<close>

lemma token_loop_starved:
  "length token_queue + length (concat feed) \<le> skip_token \<Longrightarrow>
     token_loop fuel env local_translated_text chat match_number user_language temperature
       language generate_audio feed token_queue skip_token chat_response stats w
     = (Running, [], stats, w)"
proof (induction fuel arbitrary: feed token_queue skip_token)
  case 0
  then show ?case by simp
next
  case (Suc fuel)
  define q where "q = token_queue @ (case feed of [] \<Rightarrow> [] | batch # _ \<Rightarrow> batch)"
  define later where "later = (case feed of [] \<Rightarrow> [] | _ # rest \<Rightarrow> rest)"
  have len: "length q + length (concat later) \<le> skip_token"
    using Suc.prems by (cases feed) (simp_all add: q_def later_def)
  show ?case
  proof (cases q)
    case Nil
    with len have "length ([]::qval list) + length (concat later) \<le> skip_token" by simp
    from Suc.IH [OF this] Nil show ?thesis
      by (simp add: q_def [symmetric] later_def [symmetric])
  next
    case (Cons v rest)
    with len have pos: "0 < skip_token"
      and "length rest + length (concat later) \<le> skip_token - 1" by simp_all
    from Suc.IH [OF this(2)] pos Cons show ?thesis
      by (simp add: q_def [symmetric] later_def [symmetric] queue_get_def)
  qed
qed

text \<open>So a stream of at most nine values, the sentinel among them or not, never ends the
  streaming branch.\<close>

lemma converse_stream_starved:
  "length (concat (get_aresponse env args)) \<le> length ''Ayushma: '' \<Longrightarrow>
     converse_stream fuel env args local_translated_text chat match_number user_language
       temperature language generate_audio stats w
     = (Running, [], stats, log_call (Call_get_aresponse args) w)"
  by (simp add: converse_stream_def Let_def token_loop_starved)

text \<open>One iteration of the loop, by what it finds on the queue.\<close>

lemma token_loop_idle:
  "token_queue @ (case feed of [] \<Rightarrow> [] | batch # _ \<Rightarrow> batch) = [] \<Longrightarrow>
     token_loop (Suc fuel) env local_translated_text chat match_number user_language temperature
       language generate_audio feed token_queue skip_token chat_response stats w
     = token_loop fuel env local_translated_text chat match_number user_language temperature
         language generate_audio (case feed of [] \<Rightarrow> [] | _ # later \<Rightarrow> later) []
         skip_token chat_response stats w"
  by (simp add: Let_def)

lemma token_loop_skip:
  "token_queue @ (case feed of [] \<Rightarrow> [] | batch # _ \<Rightarrow> batch) = v # rest \<Longrightarrow> 0 < skip_token
   \<Longrightarrow> token_loop (Suc fuel) env local_translated_text chat match_number user_language
         temperature language generate_audio feed token_queue skip_token chat_response stats w
     = token_loop fuel env local_translated_text chat match_number user_language temperature
         language generate_audio (case feed of [] \<Rightarrow> [] | _ # later \<Rightarrow> later) rest
         (skip_token - 1) chat_response stats w"
  by (simp add: Let_def queue_get_def)

lemma token_loop_token:
  "token_queue @ (case feed of [] \<Rightarrow> [] | batch # _ \<Rightarrow> batch) = Token s # rest \<Longrightarrow>
     token_loop (Suc fuel) env local_translated_text chat match_number user_language
         temperature language generate_audio feed token_queue 0 chat_response stats w
     = prepend_event
         (Yield_data (create_json_response local_translated_text (chat_external_id chat) s
                        (chat_response @ s) False None))
         (token_loop fuel env local_translated_text chat match_number user_language temperature
            language generate_audio (case feed of [] \<Rightarrow> [] | _ # later \<Rightarrow> later) rest 0
            (chat_response @ s) stats w)"
  by (simp add: Let_def queue_get_def str_iadd_def)

lemma token_loop_sentinel:
  "token_queue @ (case feed of [] \<Rightarrow> [] | batch # _ \<Rightarrow> batch) = RESPONSE_END # rest \<Longrightarrow>
     token_loop (Suc fuel) env local_translated_text chat match_number user_language
         temperature language generate_audio feed token_queue 0 chat_response stats w
     = (case handle_post_response env chat_response chat match_number user_language temperature
               (stats(''response_end_time'' \<mapsto> clock w)) language generate_audio
               (w\<lparr>clock := Suc (clock w)\<rparr>) of
          (Inl e, stats, w) \<Rightarrow> (Raised e, [], stats, w)
        | (Inr (translated_chat_response, url, chat_message), stats, w) \<Rightarrow>
            (Finished,
             [Yield_data (create_json_response local_translated_text (chat_external_id chat) []
                            translated_chat_response True url)],
             stats, w))"
  by (simp add: Let_def queue_get_def time_time_def)

lemma token_loop_object:
  "token_queue @ (case feed of [] \<Rightarrow> [] | batch # _ \<Rightarrow> batch) = Object ty # rest \<Longrightarrow>
     token_loop (Suc fuel) env local_translated_text chat match_number user_language
         temperature language generate_audio feed token_queue 0 chat_response stats w
     = (Raised (Exception (''can only concatenate str (not '' @ [CHR 0x22] @ ty
                             @ [CHR 0x22] @ '') to str'')),
        [], stats, w)"
  by (simp add: Let_def queue_get_def str_iadd_def)


text \<open>What a run of the loop does to the dictionary and the world: nothing, or the
  one call of \<^verbatim>\<open>handle_post_response\<close> made when the sentinel is read. The events before
  that are all Delta events.\<close>

lemma token_loop_shape:
  assumes "token_loop fuel env local_translated_text chat match_number user_language temperature
             language generate_audio feed token_queue skip_token chat_response stats w
           = (out, evs, stats', w')"
  shows "(out = Running \<and> stats' = stats \<and> w' = w \<and> list_all is_delta evs)
       \<or> (\<exists>e. out = Raised e \<and> stats' = stats \<and> w' = w \<and> list_all is_delta evs)
       \<or> (\<exists>reply res ds. list_all is_delta ds \<and>
            handle_post_response env reply chat match_number user_language temperature
              (stats(''response_end_time'' \<mapsto> clock w)) language generate_audio
              (w\<lparr>clock := Suc (clock w)\<rparr>) = (res, stats', w') \<and>
            (case res of
               Inl e \<Rightarrow> out = Raised e \<and> evs = ds
             | Inr (translated, url, m) \<Rightarrow>
                 out = Finished \<and>
                 evs = ds @ [Yield_data (create_json_response local_translated_text
                                           (chat_external_id chat) [] translated True url)]))"
  using assms
proof (induction fuel arbitrary: feed token_queue skip_token chat_response evs)
  case 0
  then show ?case by simp
next
  case (Suc fuel)
  let ?q = "token_queue @ (case feed of [] \<Rightarrow> [] | batch # _ \<Rightarrow> batch)"
  let ?later = "case feed of [] \<Rightarrow> [] | _ # later \<Rightarrow> later"
  show ?case
  proof (cases ?q)
    case Nil
    from Suc.prems [unfolded token_loop_idle [OF Nil]] show ?thesis by (rule Suc.IH)
  next
    case (Cons v rest)
    show ?thesis
    proof (cases "0 < skip_token")
      case True
      from Suc.prems [unfolded token_loop_skip [OF Cons True]] show ?thesis by (rule Suc.IH)
    next
      case False
      then have zero: "skip_token = 0" by simp
      show ?thesis
      proof (cases v)
        case (Token s)
        obtain evs0 where sub:
          "token_loop fuel env local_translated_text chat match_number user_language temperature
             language generate_audio ?later rest 0 (chat_response @ s) stats w
           = (out, evs0, stats', w')"
          and evs: "evs = Yield_data (create_json_response local_translated_text
                     (chat_external_id chat) s (chat_response @ s) False None) # evs0"
          using Suc.prems [unfolded zero token_loop_token [OF Cons [unfolded Token]]]
          by (auto simp: prepend_event_def split: prod.splits)
        have d: "is_delta (Yield_data (create_json_response local_translated_text
                     (chat_external_id chat) s (chat_response @ s) False None))"
          by (simp add: create_json_response_def)
        from Suc.IH [OF sub] show ?thesis
        proof (elim disjE exE conjE)
          fix reply res ds
          assume ds: "list_all is_delta ds"
            and hpr: "handle_post_response env reply chat match_number user_language temperature
              (stats(''response_end_time'' \<mapsto> clock w)) language generate_audio
              (w\<lparr>clock := Suc (clock w)\<rparr>) = (res, stats', w')"
            and shape: "case res of
               Inl e \<Rightarrow> out = Raised e \<and> evs0 = ds
             | Inr (translated, url, m) \<Rightarrow>
                 out = Finished \<and>
                 evs0 = ds @ [Yield_data (create_json_response local_translated_text
                                           (chat_external_id chat) [] translated True url)]"
          let ?d = "Yield_data (create_json_response local_translated_text
                     (chat_external_id chat) s (chat_response @ s) False None)"
          have "list_all is_delta (?d # ds)" using d ds by simp
          moreover have "case res of
               Inl e \<Rightarrow> out = Raised e \<and> evs = ?d # ds
             | Inr (translated, url, m) \<Rightarrow>
                 out = Finished \<and>
                 evs = (?d # ds) @ [Yield_data (create_json_response local_translated_text
                                           (chat_external_id chat) [] translated True url)]"
            using shape evs by (simp split: sum.splits prod.splits)
          ultimately show ?thesis using hpr by blast
        qed (use d evs in simp_all)
      next
        case RESPONSE_END
        obtain res where hpr:
          "handle_post_response env chat_response chat match_number user_language temperature
              (stats(''response_end_time'' \<mapsto> clock w)) language generate_audio
              (w\<lparr>clock := Suc (clock w)\<rparr>) = (res, stats', w')"
          and shape: "case res of
               Inl e \<Rightarrow> out = Raised e \<and> evs = []
             | Inr (translated, url, m) \<Rightarrow>
                 out = Finished \<and>
                 evs = [] @ [Yield_data (create_json_response local_translated_text
                                           (chat_external_id chat) [] translated True url)]"
          using Suc.prems [unfolded zero token_loop_sentinel [OF Cons [unfolded RESPONSE_END]]]
          by (auto split: prod.splits sum.splits)
        have "list_all is_delta ([]::event list)" by simp
        with hpr shape show ?thesis by blast
      next
        case (Object ty)
        from Suc.prems [unfolded zero token_loop_object [OF Cons [unfolded Object]]]
        show ?thesis by auto
      qed
    qed
  qed
qed


text \<open>How the two relations pass through each part of a turn.\<close>

lemma stats_kept_refl: "stats_kept stats w stats w"
  by (simp add: stats_kept_def)

lemma stats_kept_trans:
  "stats_kept s0 w0 s1 w1 \<Longrightarrow> stats_kept s1 w1 s2 w2 \<Longrightarrow> stats_kept s0 w0 s2 w2"
  unfolding stats_kept_def
proof (elim conjE exE)
  fix new new'
  assume "ChatMessage_objects w1 = ChatMessage_objects w0 @ new"
    "ChatMessage_objects w2 = ChatMessage_objects w1 @ new'"
  then have "ChatMessage_objects w2 = ChatMessage_objects w0 @ (new @ new')" by simp
  then have rows: "\<exists>n. ChatMessage_objects w2 = ChatMessage_objects w0 @ n" by blast
  assume "converse_default_stats w1 = converse_default_stats w0"
    "converse_default_stats w2 = converse_default_stats w1"
    "dom s0 \<subseteq> dom s1" "dom s1 \<subseteq> dom s2"
  then have "converse_default_stats w2 = converse_default_stats w0" "dom s0 \<subseteq> dom s2"
    by (simp, blast)
  with rows show "converse_default_stats w2 = converse_default_stats w0 \<and> dom s0 \<subseteq> dom s2 \<and>
      (\<exists>new. ChatMessage_objects w2 = ChatMessage_objects w0 @ new)"
    by blast
qed

lemma audio_untouched_refl: "audio_untouched stats w stats w"
  by (simp add: audio_untouched_def)

lemma audio_untouched_trans:
  "audio_untouched s0 w0 s1 w1 \<Longrightarrow> audio_untouched s1 w1 s2 w2 \<Longrightarrow> audio_untouched s0 w0 s2 w2"
  unfolding audio_untouched_def
proof (elim conjE exE)
  fix new new'
  assume "ChatMessage_objects w1 = ChatMessage_objects w0 @ new"
    "ChatMessage_objects w2 = ChatMessage_objects w1 @ new'"
    "list_all (\<lambda>r. cm_ayushma_audio_url r = None) new"
    "list_all (\<lambda>r. cm_ayushma_audio_url r = None) new'"
  then have "ChatMessage_objects w2 = ChatMessage_objects w0 @ (new @ new') \<and>
             list_all (\<lambda>r. cm_ayushma_audio_url r = None) (new @ new')"
    by simp
  then have rows: "\<exists>n. ChatMessage_objects w2 = ChatMessage_objects w0 @ n \<and>
             list_all (\<lambda>r. cm_ayushma_audio_url r = None) n" by blast
  assume "filter is_audio_call (calls w1) = filter is_audio_call (calls w0)"
    "filter is_audio_call (calls w2) = filter is_audio_call (calls w1)"
    "s1 ''tts_start_time'' = s0 ''tts_start_time''" "s2 ''tts_start_time'' = s1 ''tts_start_time''"
    "s1 ''tts_end_time'' = s0 ''tts_end_time''" "s2 ''tts_end_time'' = s1 ''tts_end_time''"
    "s1 ''upload_start_time'' = s0 ''upload_start_time''"
    "s2 ''upload_start_time'' = s1 ''upload_start_time''"
    "s1 ''upload_end_time'' = s0 ''upload_end_time''"
    "s2 ''upload_end_time'' = s1 ''upload_end_time''"
  with rows show "filter is_audio_call (calls w2) = filter is_audio_call (calls w0) \<and>
    (\<exists>new. ChatMessage_objects w2 = ChatMessage_objects w0 @ new \<and>
           list_all (\<lambda>r. cm_ayushma_audio_url r = None) new) \<and>
    s2 ''tts_start_time'' = s0 ''tts_start_time'' \<and>
    s2 ''tts_end_time'' = s0 ''tts_end_time'' \<and>
    s2 ''upload_start_time'' = s0 ''upload_start_time'' \<and>
    s2 ''upload_end_time'' = s0 ''upload_end_time''"
    by simp
qed

lemma embed_parts_frame:
  "embed_parts env parts openai_key w = (r, w') \<Longrightarrow>
     ChatMessage_objects w' = ChatMessage_objects w \<and>
     converse_default_stats w' = converse_default_stats w \<and>
     filter is_audio_call (calls w') = filter is_audio_call (calls w)"
proof (induction parts arbitrary: w r w')
  case Nil
  then show ?case by simp
next
  case (Cons part parts)
  show ?case
  proof (cases "get_embedding env [part] openai_key")
    case (Inl e)
    with Cons.prems show ?thesis by (auto simp: Let_def log_call_def)
  next
    case (Inr embedding)
    obtain r0 w0 where sub:
      "embed_parts env parts openai_key (log_call (Call_get_embedding [part]) w) = (r0, w0)"
      by (rule prod.exhaust)
    with Cons.prems Inr have "w' = w0" by (auto simp: Let_def split: sum.splits)
    with Cons.IH [OF sub] show ?thesis by (simp add: log_call_def)
  qed
qed

lemma query_embeddings_frame:
  "query_embeddings env embeddings top_k namespace w = (r, w') \<Longrightarrow>
     ChatMessage_objects w' = ChatMessage_objects w \<and>
     converse_default_stats w' = converse_default_stats w \<and>
     filter is_audio_call (calls w') = filter is_audio_call (calls w)"
proof (induction embeddings arbitrary: w r w')
  case Nil
  then show ?case by simp
next
  case (Cons embedding embeddings)
  show ?case
  proof (cases "pinecone_query env embedding top_k namespace")
    case (Inl e)
    with Cons.prems show ?thesis by (auto simp: Let_def log_call_def)
  next
    case (Inr similar)
    obtain r0 w0 where sub:
      "query_embeddings env embeddings top_k namespace
         (log_call (Call_pinecone_query top_k namespace) w) = (r0, w0)"
      by (rule prod.exhaust)
    with Cons.prems Inr have "w' = w0" by (auto simp: Let_def split: sum.splits)
    with Cons.IH [OF sub] show ?thesis by (simp add: log_call_def)
  qed
qed

lemma get_reference_frame:
  assumes "get_reference env txt openai_key namespace top_k w = (r, w')"
  shows "ChatMessage_objects w' = ChatMessage_objects w \<and>
     converse_default_stats w' = converse_default_stats w \<and>
     filter is_audio_call (calls w') = filter is_audio_call (calls w)"
proof (cases "num_tokens_from_string env txt ''cl100k_base'' < 8192")
  case True
  show ?thesis
  proof (cases "get_embedding env [txt] openai_key")
    case (Inl e)
    with assms True have "w' = log_call (Call_get_embedding [txt]) w"
      by (simp add: get_reference_def Let_def)
    then show ?thesis by (simp add: log_call_def)
  next
    case (Inr embedding)
    obtain r0 w0 where q: "query_embeddings env [embedding] top_k namespace
        (log_call (Call_get_embedding [txt]) w) = (r0, w0)"
      by (rule prod.exhaust)
    with assms True Inr have "w' = w0"
      by (cases r0) (simp_all add: get_reference_def Let_def)
    with query_embeddings_frame [OF q] show ?thesis by (simp add: log_call_def)
  qed
next
  case False
  obtain r1 w1 where e: "embed_parts env (split_text txt) openai_key w = (r1, w1)"
    by (rule prod.exhaust)
  show ?thesis
  proof (cases r1)
    case (Inl err)
    with assms False e have "w' = w1" by (simp add: get_reference_def Let_def)
    with embed_parts_frame [OF e] show ?thesis by simp
  next
    case (Inr embeddings)
    obtain r0 w0 where q: "query_embeddings env embeddings top_k namespace w1 = (r0, w0)"
      by (rule prod.exhaust)
    with assms False e Inr have "w' = w0"
      by (cases r0) (simp_all add: get_reference_def Let_def)
    with query_embeddings_frame [OF q] embed_parts_frame [OF e] show ?thesis by simp
  qed
qed

lemma lookup_reference_frame:
  assumes "lookup_reference env references chat english_text openai_key match_number w = (r, w')"
  shows "ChatMessage_objects w' = ChatMessage_objects w \<and>
     converse_default_stats w' = converse_default_stats w \<and>
     filter is_audio_call (calls w') = filter is_audio_call (calls w)"
proof (cases "truthy references")
  case True
  with assms show ?thesis by (simp add: lookup_reference_def)
next
  case False
  show ?thesis
  proof (cases "chat_project chat")
    case None
    with assms False show ?thesis by (simp add: lookup_reference_def)
  next
    case (Some project)
    show ?thesis
    proof (cases "truthy (project_external_id project)")
      case True
      with assms False Some have
        "get_reference env english_text openai_key (str_of_opt (project_external_id project))
           match_number w = (r, w')"
        by (simp add: lookup_reference_def)
      then show ?thesis by (rule get_reference_frame)
    next
      case no: False
      with assms False Some show ?thesis by (simp add: lookup_reference_def)
    qed
  qed
qed

lemma converse_except_result:
  "converse_except env e local_translated_text chat user_language language stats w =
    (case (if user_language \<noteq> ''en-IN'' then translate_text env user_language (str_exn e)
           else Inr (str_exn e)) of
       Inl e' \<Rightarrow>
         (Raised e', [], stats, log_call (Call_translate_text user_language (str_exn e)) w)
     | Inr shown \<Rightarrow>
         (Finished,
          [Yield_data (create_json_response local_translated_text (chat_external_id chat) []
                         (str_exn e) True None)],
          stats,
          log_call (Db_create (length (ChatMessage_objects w)))
            ((if user_language \<noteq> ''en-IN''
              then log_call (Call_translate_text user_language (str_exn e)) w else w)
             \<lparr>ChatMessage_objects := ChatMessage_objects w @
                [\<lparr>cm_id = length (ChatMessage_objects w), cm_message = Some shown,
                  cm_original_message = str_exn e, cm_chat = chat_id chat,
                  cm_messageType = AYUSHMA, cm_top_k = None, cm_temperature = None,
                  cm_language = language, cm_meta = timing_meta stats,
                  cm_ayushma_audio_url = None\<rparr>]\<rparr>)))"
  by (simp add: converse_except_def Let_def ChatMessage_create_def log_call_def
      split: sum.splits)

lemma converse_except_frame:
  assumes "converse_except env e local_translated_text chat user_language language stats w
           = (out, evs, stats', w')"
  shows "stats' = stats"
    and "stats_kept stats w stats' w'"
    and "audio_untouched stats w stats' w'"
    and "out = Finished \<Longrightarrow> ChatMessage_objects w' \<noteq> [] \<and>
           cm_meta (last (ChatMessage_objects w')) = timing_meta stats'"
    and "list_all (\<lambda>ev. event_audio ev = None) evs"
    and "out \<noteq> Running"
  using assms unfolding converse_except_result stats_kept_def audio_untouched_def
  by (auto simp: log_call_def create_json_response_def split: sum.splits if_splits)

lemma after_sentinel:
  assumes hpr: "handle_post_response env reply chat match_number user_language temperature
             (stats(k \<mapsto> t)) language generate_audio w0 = (res, stats', w')"
    and w0: "ChatMessage_objects w0 = ChatMessage_objects w"
      "converse_default_stats w0 = converse_default_stats w"
      "filter is_audio_call (calls w0) = filter is_audio_call (calls w)"
  shows "stats_kept stats w stats' w'"
    and "\<not> generate_audio \<Longrightarrow> k = ''response_end_time'' \<Longrightarrow> audio_untouched stats w stats' w'"
    and "case res of Inl e \<Rightarrow> True
         | Inr (translated, url, m) \<Rightarrow>
             ChatMessage_objects w' \<noteq> [] \<and>
             cm_meta (last (ChatMessage_objects w')) = timing_meta stats' \<and>
             (\<not> generate_audio \<longrightarrow> url = None \<and> cm_ayushma_audio_url m = None)"
proof -
  note f = handle_post_response_frame [OF hpr]
  from f(3) obtain row where row: "ChatMessage_objects w' = ChatMessage_objects w0 @ [row]"
    "case res of
              Inl e \<Rightarrow> cm_message row = None \<and> cm_meta row = []
                        \<and> cm_ayushma_audio_url row = None
            | Inr (translated, url, chat_message) \<Rightarrow>
                row = chat_message \<and> cm_message row = Some translated
                \<and> cm_ayushma_audio_url row = url \<and> cm_meta row = timing_meta stats'"
    by blast
  have "dom stats \<subseteq> dom (stats(k \<mapsto> t))" by auto
  from this f(2) have "dom stats \<subseteq> dom stats'" by (rule order_trans)
  with f(1) w0 row(1) show "stats_kept stats w stats' w'"
    by (simp add: stats_kept_def)
  {
    assume off: "\<not> generate_audio" and k: "k = ''response_end_time''"
    note n = handle_post_response_no_audio [OF hpr [unfolded off [THEN eq_False [THEN iffD2]]]]
    have "cm_ayushma_audio_url row = None"
      using row(2) n(6) by (cases res) auto
    with n(1-5) w0 row(1) k show "audio_untouched stats w stats' w'"
      by (simp add: audio_untouched_def)
  }
  show "case res of Inl e \<Rightarrow> True
         | Inr (translated, url, m) \<Rightarrow>
             ChatMessage_objects w' \<noteq> [] \<and>
             cm_meta (last (ChatMessage_objects w')) = timing_meta stats' \<and>
             (\<not> generate_audio \<longrightarrow> url = None \<and> cm_ayushma_audio_url m = None)"
  proof (cases res)
    case (Inl e)
    then show ?thesis by simp
  next
    case (Inr triple)
    obtain translated url m where triple: "triple = (translated, url, m)"
      by (rule prod_cases3)
    {
      assume off: "\<not> generate_audio"
      note n = handle_post_response_no_audio [OF hpr [unfolded off [THEN eq_False [THEN iffD2]]]]
      from n(6) Inr triple have "url = None" by simp
    }
    with row Inr triple show ?thesis by auto
  qed
qed

lemma is_delta_no_audio: "list_all is_delta evs \<Longrightarrow> list_all (\<lambda>ev. event_audio ev = None) evs"
proof (induction evs)
  case Nil
  then show ?case by simp
next
  case (Cons ev evs)
  then show ?case by (cases ev) simp_all
qed

lemma log_call_frame:
  "stats_kept stats w stats (log_call c w)"
  "\<not> is_audio_call c \<Longrightarrow> audio_untouched stats w stats (log_call c w)"
  by (simp_all add: stats_kept_def audio_untouched_def log_call_def)

lemma converse_once_frame:
  assumes run: "converse_once env args chat match_number user_language temperature language
             generate_audio stats w = (out, evs, stats', w')"
  shows "stats_kept stats w stats' w'"
    and "\<not> generate_audio \<Longrightarrow> audio_untouched stats w stats' w'"
    and "\<not> generate_audio \<Longrightarrow> list_all (\<lambda>ev. event_audio ev = None) evs"
    and "out = Finished \<Longrightarrow> ChatMessage_objects w' \<noteq> [] \<and>
           cm_meta (last (ChatMessage_objects w')) = timing_meta stats'"
    and "out \<noteq> Running"
proof -
  let ?wl = "log_call (Call_get_response args) w"
  have all: "stats_kept stats w stats' w' \<and>
    (\<not> generate_audio \<longrightarrow> audio_untouched stats w stats' w') \<and>
    (\<not> generate_audio \<longrightarrow> list_all (\<lambda>ev. event_audio ev = None) evs) \<and>
    (out = Finished \<longrightarrow> ChatMessage_objects w' \<noteq> [] \<and>
           cm_meta (last (ChatMessage_objects w')) = timing_meta stats') \<and> out \<noteq> Running"
  proof (cases "get_response env args")
    case (Inl e)
    with run have "out = Raised e" "evs = []" "stats' = stats" "w' = ?wl"
      by (simp_all add: converse_once_def Let_def)
    then show ?thesis by (simp add: log_call_frame)
  next
    case (Inr response)
    obtain res s1 w1 where hpr:
      "handle_post_response env (str_replace response ''Ayushma: '' []) chat match_number
         user_language temperature (stats(''response_end_time'' \<mapsto> clock w)) language
         generate_audio (?wl\<lparr>clock := Suc (clock w)\<rparr>) = (res, s1, w1)"
      by (rule prod_cases3)
    note a = after_sentinel [OF hpr, of w]
    have w0: "ChatMessage_objects (?wl\<lparr>clock := Suc (clock w)\<rparr>) = ChatMessage_objects w"
      "converse_default_stats (?wl\<lparr>clock := Suc (clock w)\<rparr>) = converse_default_stats w"
      "filter is_audio_call (calls (?wl\<lparr>clock := Suc (clock w)\<rparr>))
         = filter is_audio_call (calls w)"
      by (simp_all add: log_call_def)
    note a = after_sentinel [OF hpr w0]
    show ?thesis
    proof (cases res)
      case (Inl e)
      with run Inr hpr have "out = Raised e" "evs = []" "stats' = s1" "w' = w1"
        by (simp_all add: converse_once_def Let_def time_time_def log_call_def)
      with a(1,2) show ?thesis by simp
    next
      case right: (Inr triple)
      obtain translated url m where triple: "triple = (translated, url, m)"
        by (rule prod_cases3)
      with run Inr hpr right have "out = Finished" "evs = [Yield_message m]" "stats' = s1"
        "w' = w1"
        by (simp_all add: converse_once_def Let_def time_time_def log_call_def)
      with a right triple show ?thesis by simp
    qed
  qed
  then show "stats_kept stats w stats' w'"
    and "\<not> generate_audio \<Longrightarrow> audio_untouched stats w stats' w'"
    and "\<not> generate_audio \<Longrightarrow> list_all (\<lambda>ev. event_audio ev = None) evs"
    and "out = Finished \<Longrightarrow> ChatMessage_objects w' \<noteq> [] \<and>
           cm_meta (last (ChatMessage_objects w')) = timing_meta stats'"
    and "out \<noteq> Running"
    by blast+
qed

lemma converse_stream_frame:
  assumes run: "converse_stream fuel env args local_translated_text chat match_number
             user_language temperature language generate_audio stats w = (out, evs, stats', w')"
  shows "stats_kept stats w stats' w'"
    and "\<not> generate_audio \<Longrightarrow> audio_untouched stats w stats' w'"
    and "\<not> generate_audio \<Longrightarrow> list_all (\<lambda>ev. event_audio ev = None) evs"
    and "out = Finished \<Longrightarrow> ChatMessage_objects w' \<noteq> [] \<and>
           cm_meta (last (ChatMessage_objects w')) = timing_meta stats'"
proof -
  let ?wl = "log_call (Call_get_aresponse args) w"
  obtain o1 ev1 s1 w1 where loop:
    "token_loop fuel env local_translated_text chat match_number user_language temperature
       language generate_audio (get_aresponse env args) [] (length ''Ayushma: '') [] stats ?wl
     = (o1, ev1, s1, w1)"
    by (rule prod_cases4)
  have wl: "ChatMessage_objects ?wl = ChatMessage_objects w"
      "converse_default_stats ?wl = converse_default_stats w"
      "filter is_audio_call (calls ?wl) = filter is_audio_call (calls w)"
      "clock ?wl = clock w"
    by (simp_all add: log_call_def)
  have w0: "ChatMessage_objects (?wl\<lparr>clock := Suc (clock ?wl)\<rparr>) = ChatMessage_objects w"
      "converse_default_stats (?wl\<lparr>clock := Suc (clock ?wl)\<rparr>) = converse_default_stats w"
      "filter is_audio_call (calls (?wl\<lparr>clock := Suc (clock ?wl)\<rparr>))
         = filter is_audio_call (calls w)"
    by (simp_all add: log_call_def)
  have handler: "out = o2 \<and> evs = ev1 @ ev2 \<and> stats' = s2 \<and> w' = w2"
    if "o1 = Raised e"
      "converse_except env e local_translated_text chat user_language language s1 w1
       = (o2, ev2, s2, w2)" for e o2 ev2 s2 w2
    using run loop that by (simp add: converse_stream_def Let_def)
  have all: "stats_kept stats w stats' w' \<and>
    (\<not> generate_audio \<longrightarrow> audio_untouched stats w stats' w') \<and>
    (\<not> generate_audio \<longrightarrow> list_all (\<lambda>ev. event_audio ev = None) evs) \<and>
    (out = Finished \<longrightarrow> ChatMessage_objects w' \<noteq> [] \<and>
           cm_meta (last (ChatMessage_objects w')) = timing_meta stats')"
    using token_loop_shape [OF loop]
  proof (elim disjE exE conjE)
    assume "o1 = Running" "s1 = stats" "w1 = ?wl" and d: "list_all is_delta ev1"
    with run loop have "out = Running" "evs = ev1" "stats' = stats" "w' = ?wl"
      by (simp_all add: converse_stream_def Let_def)
    with is_delta_no_audio [OF d] show ?thesis by (simp add: log_call_frame)
  next
    fix e
    assume o1: "o1 = Raised e" and same: "s1 = stats" "w1 = ?wl" and d: "list_all is_delta ev1"
    obtain o2 ev2 s2 w2 where ex:
      "converse_except env e local_translated_text chat user_language language s1 w1
       = (o2, ev2, s2, w2)"
      by (rule prod_cases4)
    from handler [OF o1 ex] have res: "out = o2" "evs = ev1 @ ev2" "stats' = s2" "w' = w2"
      by simp_all
    note f = converse_except_frame [OF ex]
    have "stats_kept stats w stats' w'"
      using stats_kept_trans [OF log_call_frame(1) [of stats w "Call_get_aresponse args"]]
        f(2) same res by simp
    moreover have "audio_untouched stats w stats' w'"
      using audio_untouched_trans [OF log_call_frame(2) [of "Call_get_aresponse args" stats w]]
        f(3) same res by simp
    ultimately show ?thesis using f(4,5) res is_delta_no_audio [OF d] by simp
  next
    fix reply res ds
    assume d: "list_all is_delta ds"
      and hpr: "handle_post_response env reply chat match_number user_language temperature
              (stats(''response_end_time'' \<mapsto> clock ?wl)) language generate_audio
              (?wl\<lparr>clock := Suc (clock ?wl)\<rparr>) = (res, s1, w1)"
      and shape: "case res of
               Inl e \<Rightarrow> o1 = Raised e \<and> ev1 = ds
             | Inr (translated, url, m) \<Rightarrow>
                 o1 = Finished \<and>
                 ev1 = ds @ [Yield_data (create_json_response local_translated_text
                                           (chat_external_id chat) [] translated True url)]"
    note a = after_sentinel [OF hpr w0]
    show ?thesis
    proof (cases res)
      case (Inl e)
      with shape have o1: "o1 = Raised e" and ev1: "ev1 = ds" by simp_all
      obtain o2 ev2 s2 w2 where ex:
        "converse_except env e local_translated_text chat user_language language s1 w1
         = (o2, ev2, s2, w2)"
        by (rule prod_cases4)
      from handler [OF o1 ex] have res: "out = o2" "evs = ev1 @ ev2" "stats' = s2" "w' = w2"
        by simp_all
      note f = converse_except_frame [OF ex]
      have "stats_kept stats w stats' w'"
        using stats_kept_trans [OF a(1) f(2)] res by simp
      moreover have "\<not> generate_audio \<Longrightarrow> audio_untouched stats w stats' w'"
        using audio_untouched_trans [OF a(2) f(3)] res by simp
      ultimately show ?thesis using f(4,5) res ev1 is_delta_no_audio [OF d] by auto
    next
      case (Inr triple)
      obtain translated url m where triple: "triple = (translated, url, m)"
        by (rule prod_cases3)
      with shape Inr have o1: "o1 = Finished"
        and ev1: "ev1 = ds @ [Yield_data (create_json_response local_translated_text
                                           (chat_external_id chat) [] translated True url)]"
        by simp_all
      with run loop have res: "out = Finished" "evs = ev1" "stats' = s1" "w' = w1"
        by (simp_all add: converse_stream_def Let_def)
      with a Inr triple ev1 is_delta_no_audio [OF d] show ?thesis
        by (auto simp: create_json_response_def)
    qed
  qed
  then show "stats_kept stats w stats' w'"
    and "\<not> generate_audio \<Longrightarrow> audio_untouched stats w stats' w'"
    and "\<not> generate_audio \<Longrightarrow> list_all (\<lambda>ev. event_audio ev = None) evs"
    and "out = Finished \<Longrightarrow> ChatMessage_objects w' \<noteq> [] \<and>
           cm_meta (last (ChatMessage_objects w')) = timing_meta stats'"
    by blast+
qed

lemma converse_body_frame:
  assumes run: "converse_body fuel env english_text local_translated_text openai_key chat
             match_number user_language temperature stats stream references generate_audio w
           = (out, evs, stats', w')"
  shows "stats_kept stats w stats' w'"
    and "\<not> generate_audio \<Longrightarrow> audio_untouched stats w stats' w'"
    and "\<not> generate_audio \<Longrightarrow> list_all (\<lambda>ev. event_audio ev = None) evs"
    and "out = Finished \<Longrightarrow> ChatMessage_objects w' \<noteq> [] \<and>
           cm_meta (last (ChatMessage_objects w')) = timing_meta stats'"
proof -
  let ?goal = "stats_kept stats w stats' w' \<and>
    (\<not> generate_audio \<longrightarrow> audio_untouched stats w stats' w') \<and>
    (\<not> generate_audio \<longrightarrow> list_all (\<lambda>ev. event_audio ev = None) evs) \<and>
    (out = Finished \<longrightarrow> ChatMessage_objects w' \<noteq> [] \<and>
           cm_meta (last (ChatMessage_objects w')) = timing_meta stats')"
  have ?goal
  proof (cases "truthy openai_key")
    case False
    with run have "out \<noteq> Finished" "evs = []" "stats' = stats" "w' = w"
      by (auto simp: converse_body_def truthy_def split: option.splits)
    then show ?thesis by (simp add: stats_kept_refl audio_untouched_refl)
  next
    case True
    then obtain key where key: "openai_key = Some key" "key \<noteq> []"
      by (auto simp: truthy_def split: option.splits)
    let ?et = "str_replace english_text [CHR 0x0A] '' ''"
    let ?lang = "case str_split user_language CHR ''-'' of [] \<Rightarrow> [] | l # _ \<Rightarrow> l"
    let ?nq = "\<lparr>cm_id = length (ChatMessage_objects w), cm_message = Some local_translated_text,
               cm_original_message = ?et, cm_chat = chat_id chat,
               cm_messageType = USER, cm_top_k = None, cm_temperature = None,
               cm_language = ?lang,
               cm_meta = [(''translate_start'', stats ''request_translation_start_time''),
                          (''translate_end'', stats ''request_translation_end_time'')],
               cm_ayushma_audio_url = None\<rparr>"
    let ?w2 = "w\<lparr>ChatMessage_objects := ChatMessage_objects w @ [?nq],
                 calls := calls w @ [Db_create (length (ChatMessage_objects w))],
                 clock := Suc (clock w)\<rparr>"
    let ?s1 = "stats(''reference_start_time'' \<mapsto> clock w)"
    obtain lr w3 where look:
      "lookup_reference env references chat ?et key match_number ?w2 = (lr, w3)"
      by (rule prod.exhaust)
    note lf = lookup_reference_frame [OF look]
    have k1: "stats_kept stats w ?s1 w3"
      using lf by (auto simp: stats_kept_def)
    have a1: "audio_untouched stats w ?s1 w3"
      using lf by (simp add: audio_untouched_def)
    show ?thesis
    proof (cases lr)
      case (Inl e)
      with run key look have "out = Raised e" "evs = []" "stats' = ?s1" "w' = w3"
        by (simp_all add: converse_body_def Let_def ChatMessage_create_def time_time_def
            log_call_def)
      with k1 a1 show ?thesis by simp
    next
      case (Inr reference)
      let ?s3 = "stats(''reference_start_time'' \<mapsto> clock w,
                       ''reference_end_time'' \<mapsto> clock w3,
                       ''response_start_time'' \<mapsto> Suc (clock w3))"
      let ?w5 = "w3\<lparr>clock := Suc (Suc (clock w3))\<rparr>"
      let ?args = "\<lparr>llm_openai_api_key = key,
         llm_prompt_template =
            (if truthy (chat_prompt chat) then chat_prompt chat
             else (case chat_project chat of
                     None \<Rightarrow> None
                   | Some project \<Rightarrow> project_prompt project)),
         llm_temperature = temperature, llm_user_msg = ?et,
         llm_reference = reference,
         llm_chat_history = chat_history_of
            (filter (\<lambda>m. cm_chat m = chat_id chat \<and> cm_id m \<noteq> length (ChatMessage_objects w))
              (ChatMessage_objects w3))\<rparr>"
      have k3: "stats_kept stats w ?s3 ?w5"
        using lf by (auto simp: stats_kept_def)
      have a3: "audio_untouched stats w ?s3 ?w5"
        using lf by (simp add: audio_untouched_def)
      show ?thesis
      proof (cases stream)
        case False
        have once:
          "converse_once env ?args chat match_number user_language temperature ?lang
              generate_audio ?s3 ?w5 = (out, evs, stats', w')"
          using run key look Inr False
          by (simp add: converse_body_def Let_def ChatMessage_create_def time_time_def
              log_call_def)
        note f = converse_once_frame [OF once]
        from stats_kept_trans [OF k3 f(1)] audio_untouched_trans [OF a3 f(2)] f(3,4)
        show ?thesis by blast
      next
        case True
        have str:
          "converse_stream fuel env ?args local_translated_text chat match_number
              user_language temperature ?lang generate_audio ?s3 ?w5 = (out, evs, stats', w')"
          using run key look Inr True
          by (simp add: converse_body_def Let_def ChatMessage_create_def time_time_def
              log_call_def)
        note f = converse_stream_frame [OF str]
        from stats_kept_trans [OF k3 f(1)] audio_untouched_trans [OF a3 f(2)] f(3,4)
        show ?thesis by blast
      qed
    qed
  qed
  then show "stats_kept stats w stats' w'"
    and "\<not> generate_audio \<Longrightarrow> audio_untouched stats w stats' w'"
    and "\<not> generate_audio \<Longrightarrow> list_all (\<lambda>ev. event_audio ev = None) evs"
    and "out = Finished \<Longrightarrow> ChatMessage_objects w' \<noteq> [] \<and>
           cm_meta (last (ChatMessage_objects w')) = timing_meta stats'"
    by blast+
qed

text \<open>The text \<^verbatim>\<open>add_reference_documents\<close> leaves in the message: what stands before
  the marker, stripped.\<close>

lemma add_reference_documents_text:
  assumes "add_reference_documents env m0 w = (m, w1)"
  shows "cm_original_message m =
     (case str_find (cm_original_message m0) ''References:'' of
        None \<Rightarrow> cm_original_message m0
      | Some i \<Rightarrow> str_strip (take i (cm_original_message m0)))"
  using assms by (auto simp: add_reference_documents_def Let_def split: option.splits)

text \<open>What each stage returns or raises is what its service does, on the argument the
  stage gives it.\<close>

lemma translate_response_result:
  "fst (translate_response env user_language m stats w) =
     (if user_language \<noteq> ''en-IN'' then translate_text env user_language (cm_original_message m)
      else Inr (cm_original_message m))"
  by (simp add: translate_response_def Let_def time_time_def split: sum.splits)

lemma synthesize_voice_result:
  "fst (synthesize_voice env generate_audio translated user_language stats w) =
     (if generate_audio then text_to_speech env translated user_language else Inr None)"
  by (simp add: synthesize_voice_def Let_def time_time_def split: sum.splits)

lemma upload_voice_result:
  "fst (upload_voice env chat voice stats w) =
     (if voice = None \<or> voice = Some [] then Inr None
      else case upload_file env (the voice) (chat_id chat @ ''_'' @ uuid4 env @ ''.mp3'') of
             Inl e \<Rightarrow> Inl e
           | Inr url \<Rightarrow> Inr (Some url))"
  by (simp add: upload_voice_def Let_def time_time_def split: sum.splits option.splits)

text \<open>The definitions a run on concrete inputs unfolds.\<close>

lemmas turn_defs =
  converse_def converse_body_def lookup_reference_def converse_once_def converse_stream_def
  converse_except_def handle_post_response_def translate_response_def synthesize_voice_def
  upload_voice_def add_reference_documents_def ChatMessage_create_def ChatMessage_save_def
  reference_documents_add_def time_time_def log_call_def Let_def truthy_def str_replace_def
  timing_meta_def str_of_opt_def chat_history_of_def create_json_response_def
  str_strip_def str_strip_chars_def py_whitespace_def doc_id_strip_chars_def
  insertion_order_def

lemmas example_defs =
  example_env_def example_chat_def empty_world_def failing_translation_env_def
  failing_speech_env_def failing_upload_env_def spelled_stream_env_def
  broken_stream_env_def silent_env_def short_stream_env_def

text \<open>A stream of string tokens only: the loop never ends, and what it has yielded so far
  are Delta events for the tokens after the skipped ones, each with the text so far.\<close>

lemma token_loop_tokens_general:
  "\<exists>n\<le>length (drop skip_token (queue @ concat batches)).
     token_loop fuel env local_translated_text chat match_number user_language temperature
       language generate_audio (map (map Token) batches) (map Token queue) skip_token
       chat_response stats w
     = (Running,
        map (\<lambda>i. Yield_data
                    (create_json_response local_translated_text (chat_external_id chat)
                       (drop skip_token (queue @ concat batches) ! i)
                       (chat_response @ concat (take (Suc i) (drop skip_token (queue @ concat batches))))
                       False None))
          [0 ..< n],
        stats, w)
     \<and> (length batches + length queue + length (concat batches) \<le> fuel
          \<longrightarrow> n = length (drop skip_token (queue @ concat batches)))"
proof (induction fuel arbitrary: batches queue skip_token chat_response)
  case 0
  show ?case by (rule exI [of _ 0]) simp
next
  case (Suc fuel)
  define q where "q = queue @ (case batches of [] \<Rightarrow> [] | b # _ \<Rightarrow> b)"
  define later where "later = (case batches of [] \<Rightarrow> [] | _ # rest \<Rightarrow> rest)"
  have all: "queue @ concat batches = q @ concat later"
    by (cases batches) (simp_all add: q_def later_def)
  have feed: "map Token queue @ (case map (map Token) batches of [] \<Rightarrow> [] | b # _ \<Rightarrow> b) = map Token q"
    "(case map (map Token) batches of [] \<Rightarrow> [] | _ # rest \<Rightarrow> rest) = map (map Token) later"
    by (cases batches; simp add: q_def later_def)+
  have len: "length batches + length queue + length (concat batches)
      = (if batches = [] then 0 else 1) + length later + length q + length (concat later)"
    by (cases batches) (simp_all add: q_def later_def)
  show ?case
  proof (cases q)
    case Nil
    from Suc.IH [of skip_token "[]" later chat_response] Nil all len show ?thesis
      by (auto simp: feed)
  next
    case (Cons t rest)
    show ?thesis
    proof (cases skip_token)
      case 0
      from Suc.IH [of 0 rest later "chat_response @ t"]
      obtain n where n: "n \<le> length (rest @ concat later)"
        "token_loop fuel env local_translated_text chat match_number user_language temperature
           language generate_audio (map (map Token) later) (map Token rest) 0
           (chat_response @ t) stats w
         = (Running,
            map (\<lambda>i. Yield_data
                    (create_json_response local_translated_text (chat_external_id chat)
                       ((rest @ concat later) ! i)
                       ((chat_response @ t) @ concat (take (Suc i) (rest @ concat later)))
                       False None))
              [0 ..< n],
            stats, w)"
        "length later + length rest + length (concat later) \<le> fuel
           \<longrightarrow> n = length (rest @ concat later)"
        by auto
      show ?thesis
        apply (rule exI [of _ "Suc n"])
        using n 0 Cons all len
        by (simp add: feed queue_get_def str_iadd_def prepend_event_def map_upt_Suc del: upt_Suc)
    next
      case (Suc k)
      from Suc.IH [of k rest later chat_response] Suc Cons all len show ?thesis
        by (auto simp: feed queue_get_def)
    qed
  qed
qed

text \<open>What the skip count does: nine values are discarded, whatever they are; the tokens
  after them are streamed, the marker section too, and finalization cuts the marker out
  and resolves the ids.\<close>

lemma converse_stream_skips_nine_values:
  assumes feed: "get_aresponse env args =
      [[p1, p2, p3, p4, p5, p6, p7, p8, p9, Token '' Hi'', Token '' there'',
        Token ''References:'', Token '' 12, 7'', RESPONSE_END]]"
    and docs: "Document_get env ''12'' = Inr d12" "Document_get env ''7'' = Inr d7"
    and order: "set_order env [''12'', ''7''] = [''12'', ''7''] \<or>
                set_order env [''12'', ''7''] = [''7'', ''12'']"
  shows "\<exists>stats' w' row.
     converse_stream (14 + k) env args local_translated_text chat match_number ''en-IN''
       temperature language False stats w
     = (Finished,
        [Yield_data (create_json_response local_translated_text (chat_external_id chat)
                       '' Hi'' '' Hi'' False None),
         Yield_data (create_json_response local_translated_text (chat_external_id chat)
                       '' there'' '' Hi there'' False None),
         Yield_data (create_json_response local_translated_text (chat_external_id chat)
                       ''References:'' '' Hi thereReferences:'' False None),
         Yield_data (create_json_response local_translated_text (chat_external_id chat)
                       '' 12, 7'' '' Hi thereReferences: 12, 7'' False None),
         Yield_data (create_json_response local_translated_text (chat_external_id chat)
                       [] ''Hi there'' True None)],
        stats', w') \<and>
     ChatMessage_objects w' = ChatMessage_objects w @ [row] \<and>
     cm_original_message row = ''Hi there'' \<and> cm_message row = Some ''Hi there'' \<and>
     set (reference_documents w') =
       set (reference_documents w) \<union>
       {(length (ChatMessage_objects w), d) | d. d \<in> set_option d12 \<union> set_option d7}"
  using order
  by (cases d12; cases d7)
     (auto simp: converse_stream_def feed docs eval_nat_numeral queue_get_def str_iadd_def
        prepend_event_def handle_post_response_def translate_response_def synthesize_voice_def
        upload_voice_def add_reference_documents_def ChatMessage_create_def ChatMessage_save_def
        reference_documents_add_def time_time_def log_call_def Let_def
        str_strip_def str_strip_chars_def py_whitespace_def doc_id_strip_chars_def)

subsection \<open>Marker extraction without a marker\<close>

text \<open>
  C7. For every assistant text in which the marker \<^verbatim>\<open>References:\<close> does not occur,
  \<^verbatim>\<open>add_reference_documents\<close> changes nothing: the message object keeps its text, and
  the world is the same, so no row of the reference relation was added and nothing
  was written to the database.
\<close>

theorem add_reference_documents_no_marker:
  "\<not> sublist ''References:'' (cm_original_message chat_message) \<Longrightarrow>
     add_reference_documents env chat_message w = (chat_message, w)"
  using str_find_None_iff [of "cm_original_message chat_message" "''References:''"]
  by (simp add: add_reference_documents_def)

theorem add_reference_documents_no_marker_witness:
  "\<not> sublist ''References:'' (cm_original_message example_message) \<and>
     add_reference_documents example_env example_message empty_world
       = (example_message, empty_world)"
proof -
  have h: "\<not> sublist ''References:'' (cm_original_message example_message)"
    by (simp add: example_message_def sublist_Cons_right prefix_code)
  show ?thesis
    using h add_reference_documents_no_marker [OF h, of example_env empty_world] by simp
qed

text \<open>After one run the stored text holds no marker, so a second run changes nothing,
  whatever has happened to the world in between.\<close>

lemma add_reference_documents_idempotent:
  assumes "add_reference_documents env m w = (m', w')"
  shows "add_reference_documents env m' w'' = (m', w'')"
proof (cases "str_find (cm_original_message m) ''References:''")
  case None
  with assms have "m' = m" by (simp add: add_reference_documents_def)
  with None show ?thesis by (simp add: add_reference_documents_def)
next
  case (Some i)
  with assms have m': "cm_original_message m' = str_strip (take i (cm_original_message m))"
    by (auto simp: add_reference_documents_def Let_def)
  have "\<not> sublist ''References:'' (take i (cm_original_message m))"
    using str_find_first [OF Some] by simp
  moreover have "sublist (str_strip (take i (cm_original_message m)))
      (take i (cm_original_message m))" by (rule sublist_str_strip)
  ultimately have "\<not> sublist ''References:'' (cm_original_message m')"
    unfolding m' by (blast intro: sublist_order.order.trans)
  then have "str_find (cm_original_message m') ''References:'' = None"
    by (simp add: str_find_None_iff)
  then show ?thesis by (simp add: add_reference_documents_def)
qed

subsection \<open>The key check\<close>

text \<open>
  C10. A call of \<^verbatim>\<open>converse\<close> whose OpenAI key is missing (\<open>None\<close>) or empty raises
  the exception of line 251, at the first step of the generator, and yields nothing;
  the world it returns is the world it was given, so no message was created or saved,
  no reference was retrieved and the model was not called, and the dictionary of timings
  is as it was.
\<close>

theorem converse_requires_key:
  "\<not> truthy openai_key \<Longrightarrow>
     converse fuel env english_text local_translated_text openai_key chat match_number
       user_language temperature stats_arg stream references generate_audio w
     = (Raised (Exception ''OpenAI-Key header is required to create a chat or converse''), [],
        (case stats_arg of None \<Rightarrow> converse_default_stats w | Some stats \<Rightarrow> stats), w)"
  by (auto simp: converse_def converse_body_def truthy_def split: option.splits)

theorem converse_requires_key_witness:
  "\<not> truthy (Some []) \<and> \<not> truthy None \<and>
     converse 5 example_env ''Hello'' ''Hello'' (Some []) example_chat 3 ''en-IN'' 0 None True
       None True empty_world
     = (Raised (Exception ''OpenAI-Key header is required to create a chat or converse''), [],
        converse_default_stats empty_world, empty_world) \<and>
     converse 5 example_env ''Hello'' ''Hello'' None example_chat 3 ''en-IN'' 0 None False
       None True empty_world
     = (Raised (Exception ''OpenAI-Key header is required to create a chat or converse''), [],
        converse_default_stats empty_world, empty_world)"
proof -
  have h1: "\<not> truthy (Some [])" and h2: "\<not> truthy None"
    by (simp_all add: truthy_def)
  show ?thesis
    using h1 h2
      converse_requires_key [OF h1, of 5 example_env "''Hello''" "''Hello''" example_chat 3
        "''en-IN''" 0 None True None True empty_world]
      converse_requires_key [OF h2, of 5 example_env "''Hello''" "''Hello''" example_chat 3
        "''en-IN''" 0 None False None True empty_world]
    by simp
qed

subsection \<open>Failures while post-processing\<close>

text \<open>
  C5, as amended. \<^verbatim>\<open>handle_post_response\<close> appends one row, the assistant's Turn, whose
  text is the response up to the marker \<^verbatim>\<open>References:\<close>. What becomes of the row is
  decided by the three services, each on the argument the function gives it:
  \<^verbatim>\<open>translate_text\<close> on the text of the row (not called for \<^verbatim>\<open>en-IN\<close>),
  \<^verbatim>\<open>text_to_speech\<close> on the translated text (not called when audio is off), and
  \<^verbatim>\<open>upload_file\<close> on the audio (not called when the synthesis gave \<^verbatim>\<open>None\<close> or no
  bytes). When one of them raises, the function raises the same exception and the final
  save is not reached: the row has no display text, no audio reference and no timing
  metadata. When none raises, the function returns: the row is the returned message,
  saved with the display text, the audio reference and the snapshot of the timing marks.
\<close>

theorem handle_post_response_persistence:
  assumes run: "handle_post_response env chat_response chat match_number user_language
             temperature stats language generate_audio w = (res, stats', w')"
  shows "\<exists>row. ChatMessage_objects w' = ChatMessage_objects w @ [row] \<and>
     (case res of
        Inl e \<Rightarrow> cm_message row = None \<and> cm_meta row = [] \<and> cm_ayushma_audio_url row = None
      | Inr (translated, url, chat_message) \<Rightarrow>
          row = chat_message \<and> cm_message row = Some translated
          \<and> cm_ayushma_audio_url row = url \<and> cm_meta row = timing_meta stats') \<and>
     cm_original_message row =
       (case str_find chat_response ''References:'' of
          None \<Rightarrow> chat_response
        | Some i \<Rightarrow> str_strip (take i chat_response)) \<and>
     (case (if user_language \<noteq> ''en-IN''
            then translate_text env user_language (cm_original_message row)
            else Inr (cm_original_message row)) of
        Inl e \<Rightarrow> res = Inl e
      | Inr translated \<Rightarrow>
     (case (if generate_audio then text_to_speech env translated user_language
            else Inr None) of
        Inl e \<Rightarrow> res = Inl e
      | Inr voice \<Rightarrow>
          if voice = None \<or> voice = Some [] then res = Inr (translated, None, row)
          else
     (case upload_file env (the voice) (chat_id chat @ ''_'' @ uuid4 env @ ''.mp3'') of
        Inl e \<Rightarrow> res = Inl e
      | Inr url \<Rightarrow> res = Inr (translated, Some url, row))))"
    (is "\<exists>row. ?R row \<and> ?B row \<and> ?T row \<and> ?C row")
  using run
proof (cases rule: handle_post_response_cases)
  case (translation_raised m0 m w1 e)
  note a = add_reference_documents_after_create(5) [OF translation_raised(2)]
  note a1 = add_reference_documents_after_create(1) [OF translation_raised(2)]
  note t = translate_response_frame(1) [OF translation_raised(3)]
  from translate_response_result [of env user_language m stats w1] translation_raised(3)
  have tr: "(if user_language \<noteq> ''en-IN''
            then translate_text env user_language (cm_original_message m)
            else Inr (cm_original_message m)) = Inl e" by simp
  have rows: "?R m"
    using a t translation_raised(1) by simp
  have un: "cm_message m = None \<and> cm_meta m = [] \<and> cm_ayushma_audio_url m = None"
    using a1 translation_raised(1) by auto
  have shown: "?T m"
    using add_reference_documents_text [OF translation_raised(2)] translation_raised(1)
    by (auto split: option.splits)
  have "?B m" by (simp add: un translation_raised(4))
  moreover have "?C m" by (simp add: tr translation_raised(4))
  ultimately show ?thesis using rows shown by blast
next
  case (speech_raised m0 m w1 translated stats1 w2 e)
  note a = add_reference_documents_after_create(5) [OF speech_raised(2)]
  note a1 = add_reference_documents_after_create(1) [OF speech_raised(2)]
  note t = translate_response_frame(1) [OF speech_raised(3)]
  note v = synthesize_voice_frame(1) [OF speech_raised(4)]
  from translate_response_result [of env user_language m stats w1] speech_raised(3)
  have tr: "(if user_language \<noteq> ''en-IN''
            then translate_text env user_language (cm_original_message m)
            else Inr (cm_original_message m)) = Inr translated" by simp
  from synthesize_voice_result [of env generate_audio translated user_language stats1 w2]
    speech_raised(4)
  have sp: "(if generate_audio then text_to_speech env translated user_language
            else Inr None) = Inl e" by simp
  have rows: "?R m"
    using a t v speech_raised(1) by simp
  have un: "cm_message m = None \<and> cm_meta m = [] \<and> cm_ayushma_audio_url m = None"
    using a1 speech_raised(1) by auto
  have shown: "?T m"
    using add_reference_documents_text [OF speech_raised(2)] speech_raised(1)
    by (auto split: option.splits)
  have "?B m" by (simp add: un speech_raised(5))
  moreover have "?C m" by (simp add: tr sp speech_raised(5))
  ultimately show ?thesis using rows shown by blast
next
  case (upload_raised m0 m w1 translated stats1 w2 voice stats2 w3 e)
  note a = add_reference_documents_after_create(5) [OF upload_raised(2)]
  note a1 = add_reference_documents_after_create(1) [OF upload_raised(2)]
  note t = translate_response_frame(1) [OF upload_raised(3)]
  note v = synthesize_voice_frame(1) [OF upload_raised(4)]
  note u = upload_voice_frame(1) [OF upload_raised(5)]
  from translate_response_result [of env user_language m stats w1] upload_raised(3)
  have tr: "(if user_language \<noteq> ''en-IN''
            then translate_text env user_language (cm_original_message m)
            else Inr (cm_original_message m)) = Inr translated" by simp
  from synthesize_voice_result [of env generate_audio translated user_language stats1 w2]
    upload_raised(4)
  have sp: "(if generate_audio then text_to_speech env translated user_language
            else Inr None) = Inr voice" by simp
  from upload_voice_result [of env chat voice stats2 w3] upload_raised(5)
  have up: "(if voice = None \<or> voice = Some [] then Inr None
      else case upload_file env (the voice) (chat_id chat @ ''_'' @ uuid4 env @ ''.mp3'') of
             Inl e \<Rightarrow> Inl e
           | Inr url \<Rightarrow> Inr (Some url)) = Inl e" by simp
  then have up': "\<not> (voice = None \<or> voice = Some [])"
    "upload_file env (the voice) (chat_id chat @ ''_'' @ uuid4 env @ ''.mp3'') = Inl e"
    by (auto split: if_splits sum.splits)
  have rows: "?R m"
    using a t v u upload_raised(1) by simp
  have un: "cm_message m = None \<and> cm_meta m = [] \<and> cm_ayushma_audio_url m = None"
    using a1 upload_raised(1) by auto
  have shown: "?T m"
    using add_reference_documents_text [OF upload_raised(2)] upload_raised(1)
    by (auto split: option.splits)
  have "?B m" by (simp add: un upload_raised(6))
  moreover have "?C m" using up' by (simp add: tr sp upload_raised(6))
  ultimately show ?thesis using rows shown by blast
next
  case (saved m0 m w1 translated stats1 w2 voice stats2 w3 url w4)
  let ?row = "m\<lparr>cm_message := Some translated, cm_ayushma_audio_url := url,
                 cm_meta := timing_meta stats'\<rparr>"
  note a = add_reference_documents_after_create(5) [OF saved(2)]
  note a1 = add_reference_documents_after_create(1) [OF saved(2)]
  note t = translate_response_frame(1) [OF saved(3)]
  note v = synthesize_voice_frame(1) [OF saved(4)]
  note u = upload_voice_frame(1) [OF saved(5)]
  from translate_response_result [of env user_language m stats w1] saved(3)
  have tr: "(if user_language \<noteq> ''en-IN''
            then translate_text env user_language (cm_original_message m)
            else Inr (cm_original_message m)) = Inr translated" by simp
  from synthesize_voice_result [of env generate_audio translated user_language stats1 w2]
    saved(4)
  have sp: "(if generate_audio then text_to_speech env translated user_language
            else Inr None) = Inr voice" by simp
  from upload_voice_result [of env chat voice stats2 w3] saved(5)
  have up: "(if voice = None \<or> voice = Some [] then Inr None
      else case upload_file env (the voice) (chat_id chat @ ''_'' @ uuid4 env @ ''.mp3'') of
             Inl e \<Rightarrow> Inl e
           | Inr url \<Rightarrow> Inr (Some url)) = Inr url" by simp
  have up': "if voice = None \<or> voice = Some [] then url = None
     else upload_file env (the voice) (chat_id chat @ ''_'' @ uuid4 env @ ''.mp3'')
          = Inr (the url) \<and> url \<noteq> None"
    using up by (auto split: if_splits sum.splits)
  have om: "cm_original_message ?row = cm_original_message m" by simp
  have id: "cm_id m = length (ChatMessage_objects w)"
    using a1 saved(1) by auto
  have rows: "?R ?row"
    using a t v u saved(1,7) id by (simp add: ChatMessage_save_def log_call_def)
  have shown: "?T ?row"
    using add_reference_documents_text [OF saved(2)] saved(1)
    by (auto split: option.splits)
  have "?B ?row" by (simp add: saved(6))
  moreover have "?C ?row"
    unfolding om tr sum.case sp using up' saved(6)
    by (cases "voice = None \<or> voice = Some []") auto
  ultimately show ?thesis using rows shown by blast
qed

theorem handle_post_response_persistence_witness:
  "(case handle_post_response example_env ''Hi there References: 12'' example_chat 3 ''hi-IN'' 0
          Map.empty ''hi'' True empty_world of
     (res, stats', w') \<Rightarrow>
       (\<exists>row. ChatMessage_objects w' = [row] \<and>
          res = Inr (''<hi-IN>Hi there'', Some ''https://s3/1_u.mp3'', row) \<and>
          cm_message row = Some ''<hi-IN>Hi there'' \<and>
          cm_ayushma_audio_url row = Some ''https://s3/1_u.mp3'' \<and>
          cm_meta row = timing_meta stats'))
   \<and> (case handle_post_response example_env ''Hi there'' example_chat 3 ''en-IN'' 0
          Map.empty ''en'' False empty_world of
     (res, stats', w') \<Rightarrow>
       (\<exists>row. ChatMessage_objects w' = [row] \<and>
          res = Inr (''Hi there'', None, row) \<and>
          cm_message row = Some ''Hi there'' \<and>
          cm_ayushma_audio_url row = None \<and> cm_meta row = timing_meta stats'))
   \<and> (case handle_post_response failing_translation_env ''Hi there'' example_chat 3 ''hi-IN'' 0
          Map.empty ''hi'' True empty_world of
     (res, stats', w') \<Rightarrow>
       res = Inl (Exception ''Translation failed'') \<and>
       (\<exists>row. ChatMessage_objects w' = [row] \<and> cm_message row = None \<and> cm_meta row = []
              \<and> cm_ayushma_audio_url row = None))
   \<and> (case handle_post_response failing_speech_env ''Hi there'' example_chat 3 ''hi-IN'' 0
          Map.empty ''hi'' True empty_world of
     (res, stats', w') \<Rightarrow>
       res = Inl (Exception ''Speech synthesis failed'') \<and>
       (\<exists>row. ChatMessage_objects w' = [row] \<and> cm_message row = None \<and> cm_meta row = []
              \<and> cm_ayushma_audio_url row = None))
   \<and> (case handle_post_response failing_upload_env ''Hi there'' example_chat 3 ''hi-IN'' 0
          Map.empty ''hi'' True empty_world of
     (res, stats', w') \<Rightarrow>
       res = Inl (Exception ''Upload failed'') \<and>
       (\<exists>row. ChatMessage_objects w' = [row] \<and> cm_message row = None \<and> cm_meta row = []
              \<and> cm_ayushma_audio_url row = None))"
proof -
  obtain res1 s1 w1 where r1: "handle_post_response example_env ''Hi there References: 12''
      example_chat 3 ''hi-IN'' 0 Map.empty ''hi'' True empty_world = (res1, s1, w1)"
    by (rule prod_cases3)
  obtain res2 s2 w2 where r2: "handle_post_response example_env ''Hi there'' example_chat 3
      ''en-IN'' 0 Map.empty ''en'' False empty_world = (res2, s2, w2)"
    by (rule prod_cases3)
  obtain res3 s3 w3 where r3: "handle_post_response failing_translation_env ''Hi there''
      example_chat 3 ''hi-IN'' 0 Map.empty ''hi'' True empty_world = (res3, s3, w3)"
    by (rule prod_cases3)
  obtain res4 s4 w4 where r4: "handle_post_response failing_speech_env ''Hi there''
      example_chat 3 ''hi-IN'' 0 Map.empty ''hi'' True empty_world = (res4, s4, w4)"
    by (rule prod_cases3)
  obtain res5 s5 w5 where r5: "handle_post_response failing_upload_env ''Hi there''
      example_chat 3 ''hi-IN'' 0 Map.empty ''hi'' True empty_world = (res5, s5, w5)"
    by (rule prod_cases3)
  have 1: "\<exists>row. ChatMessage_objects w1 = [row] \<and>
          res1 = Inr (''<hi-IN>Hi there'', Some ''https://s3/1_u.mp3'', row) \<and>
          cm_message row = Some ''<hi-IN>Hi there'' \<and>
          cm_ayushma_audio_url row = Some ''https://s3/1_u.mp3'' \<and>
          cm_meta row = timing_meta s1"
    using handle_post_response_persistence [OF r1]
    by (auto simp: example_defs str_strip_def str_strip_chars_def py_whitespace_def)
  have 2: "\<exists>row. ChatMessage_objects w2 = [row] \<and>
          res2 = Inr (''Hi there'', None, row) \<and>
          cm_message row = Some ''Hi there'' \<and>
          cm_ayushma_audio_url row = None \<and> cm_meta row = timing_meta s2"
    using handle_post_response_persistence [OF r2] by (auto simp: example_defs)
  have 3: "res3 = Inl (Exception ''Translation failed'') \<and>
       (\<exists>row. ChatMessage_objects w3 = [row] \<and> cm_message row = None \<and> cm_meta row = []
              \<and> cm_ayushma_audio_url row = None)"
    using handle_post_response_persistence [OF r3] by (auto simp: example_defs)
  have 4: "res4 = Inl (Exception ''Speech synthesis failed'') \<and>
       (\<exists>row. ChatMessage_objects w4 = [row] \<and> cm_message row = None \<and> cm_meta row = []
              \<and> cm_ayushma_audio_url row = None)"
    using handle_post_response_persistence [OF r4] by (auto simp: example_defs)
  have 5: "res5 = Inl (Exception ''Upload failed'') \<and>
       (\<exists>row. ChatMessage_objects w5 = [row] \<and> cm_message row = None \<and> cm_meta row = []
              \<and> cm_ayushma_audio_url row = None)"
    using handle_post_response_persistence [OF r5] by (auto simp: example_defs)
  from 1 2 3 4 5 show ?thesis unfolding r1 r2 r3 r4 r5 by simp
qed

text \<open>The claim as stated fails: with a translation service that raises, the call made
  for a Hindi speaker ends in the exception after two calls, the creation of the row and
  the translation; the row is never saved and has no display text.\<close>

theorem handle_post_response_translation_raises:
  "case handle_post_response failing_translation_env ''Hi there'' example_chat 3 ''hi-IN'' 0
          Map.empty ''hi'' True empty_world of
     (res, stats, w) \<Rightarrow>
       res = Inl (Exception ''Translation failed'') \<and>
       map cm_message (ChatMessage_objects w) = [None] \<and>
       calls w = [Db_create 0, Call_translate_text ''hi-IN'' ''Hi there'']"
  by (simp add: turn_defs example_defs)

text \<open>The same with the other two services: the exception of the speech synthesis, and
  that of the upload, leave the function before the save.\<close>

lemma handle_post_response_speech_raises:
  "case handle_post_response failing_speech_env ''Hi there'' example_chat 3 ''hi-IN'' 0
          Map.empty ''hi'' True empty_world of
     (res, stats, w) \<Rightarrow>
       res = Inl (Exception ''Speech synthesis failed'') \<and>
       map cm_message (ChatMessage_objects w) = [None] \<and>
       calls w = [Db_create 0, Call_translate_text ''hi-IN'' ''Hi there'',
                  Call_text_to_speech ''<hi-IN>Hi there'' ''hi-IN'']"
  by (simp add: turn_defs example_defs)

lemma handle_post_response_upload_raises:
  "case handle_post_response failing_upload_env ''Hi there'' example_chat 3 ''hi-IN'' 0
          Map.empty ''hi'' True empty_world of
     (res, stats, w) \<Rightarrow>
       res = Inl (Exception ''Upload failed'') \<and>
       map cm_message (ChatMessage_objects w) = [None] \<and>
       calls w = [Db_create 0, Call_translate_text ''hi-IN'' ''Hi there'',
                  Call_text_to_speech ''<hi-IN>Hi there'' ''hi-IN'',
                  Call_upload_file [1, 2, 3] ''1_u.mp3'']"
  by (simp add: turn_defs example_defs)

subsection \<open>The error path of the streaming branch\<close>

text \<open>
  C4, as amended. The handler of the streaming loop (lines 387 to 415) leaves the
  dictionary of timings as it is. When the caller's language is \<^verbatim>\<open>en-IN\<close>, or the
  translation of the error's text returns, it persists one error Turn of the assistant,
  whose original text is the error's text and whose display text is that text or its
  translation, and yields a single terminal event that carries the untranslated text.
  When the translation raises, that exception leaves \<^verbatim>\<open>converse\<close>: no error Turn is
  persisted and no terminal event is yielded.
\<close>

theorem converse_except_outcome:
  assumes "converse_except env e local_translated_text chat user_language language stats w
           = (out, evs, stats', w')"
  shows "stats' = stats \<and>
    (case (if user_language \<noteq> ''en-IN'' then translate_text env user_language (str_exn e)
           else Inr (str_exn e)) of
       Inr shown \<Rightarrow>
         out = Finished \<and>
         evs = [Yield_data (create_json_response local_translated_text (chat_external_id chat)
                              [] (str_exn e) True None)] \<and>
         ChatMessage_objects w' = ChatMessage_objects w @
           [\<lparr>cm_id = length (ChatMessage_objects w), cm_message = Some shown,
             cm_original_message = str_exn e, cm_chat = chat_id chat,
             cm_messageType = AYUSHMA, cm_top_k = None, cm_temperature = None,
             cm_language = language, cm_meta = timing_meta stats,
             cm_ayushma_audio_url = None\<rparr>]
     | Inl e' \<Rightarrow>
         out = Raised e' \<and> evs = [] \<and> ChatMessage_objects w' = ChatMessage_objects w)"
proof (cases "if user_language \<noteq> ''en-IN''
              then translate_text env user_language (str_exn e) else Inr (str_exn e)")
  case (Inl e')
  with assms show ?thesis
    unfolding converse_except_result by (auto simp: log_call_def)
next
  case (Inr shown)
  with assms show ?thesis
    unfolding converse_except_result by (auto simp: log_call_def)
qed

theorem converse_except_outcome_witness:
  "case converse_except example_env (Exception ''boom'') ''Hello'' example_chat ''hi-IN'' ''hi''
          Map.empty empty_world of
     (out, evs, stats', w') \<Rightarrow>
       stats' = Map.empty \<and> out = Finished \<and>
       evs = [Yield_data \<lparr>j_chat = ''c-1'', j_input = ''Hello'', j_delta = [],
                          j_message = ''boom'', j_stop = True, j_ayushma_voice = None\<rparr>] \<and>
       map cm_message (ChatMessage_objects w') = [Some ''<hi-IN>boom''] \<and>
       map cm_original_message (ChatMessage_objects w') = [''boom'']"
proof -
  obtain out evs stats' w' where r:
    "converse_except example_env (Exception ''boom'') ''Hello'' example_chat ''hi-IN'' ''hi''
          Map.empty empty_world = (out, evs, stats', w')"
    by (rule prod_cases4)
  from converse_except_outcome [OF r] show ?thesis
    unfolding r by (simp add: example_defs create_json_response_def)
qed

text \<open>The claim as stated fails: the producer pushes an exception object, the
  concatenation raises \<^verbatim>\<open>TypeError\<close>, the handler asks for its text in Hindi, the
  translation service raises, and that exception leaves the generator. The one event
  yielded is the Delta of the token before the failure, and the only row is the user's
  Turn.\<close>

theorem converse_error_translation_raises:
  "case converse 11 broken_stream_env ''Hello'' ''Hello'' (Some ''k'') example_chat 3 ''hi-IN'' 0
          None True None True empty_world of
     (out, evs, stats, w) \<Rightarrow>
       out = Raised (Exception ''Translation failed'') \<and>
       evs = [Yield_data (create_json_response ''Hello'' ''c-1'' '' partial'' '' partial''
                            False None)] \<and>
       map cm_messageType (ChatMessage_objects w) = [USER]"
  by (simp add: turn_defs example_defs eval_nat_numeral queue_get_def
      str_iadd_def prepend_event_def)

subsection \<open>A turn without speech synthesis\<close>




subsection \<open>The default dictionary of timings\<close>

text \<open>
  C9. A call of \<^verbatim>\<open>converse\<close> that leaves \<^verbatim>\<open>stats\<close> out works on the one default
  dictionary of the function: what the call has written is the default dictionary
  afterwards, no key that was in it before the call is lost, and the metadata persisted
  with the last Turn of a call that ends normally is read from it. A call without speech
  synthesis does not write the audio marks, so the marks an earlier call left in the
  dictionary are the ones persisted with its Turn. The example after the theorem runs
  the same call twice, once after a turn with audio and once in a fresh process: the first
  persists that earlier turn's \<^verbatim>\<open>tts_start\<close>, the second persists none.
\<close>

theorem converse_default_stats_shared:
  assumes run: "converse fuel env english_text local_translated_text openai_key chat match_number
             user_language temperature None stream references generate_audio w
           = (out, evs, stats', w')"
  shows "converse_default_stats w' = stats' \<and>
     dom (converse_default_stats w) \<subseteq> dom stats' \<and>
     (out = Finished \<longrightarrow>
        ChatMessage_objects w' \<noteq> [] \<and>
        cm_meta (last (ChatMessage_objects w')) = timing_meta stats') \<and>
     (\<not> generate_audio \<longrightarrow>
        stats' ''tts_start_time'' = converse_default_stats w ''tts_start_time'' \<and>
        stats' ''tts_end_time'' = converse_default_stats w ''tts_end_time'' \<and>
        stats' ''upload_start_time'' = converse_default_stats w ''upload_start_time'' \<and>
        stats' ''upload_end_time'' = converse_default_stats w ''upload_end_time'')"
proof -
  obtain w1 where body:
    "converse_body fuel env english_text local_translated_text openai_key chat match_number
       user_language temperature (converse_default_stats w) stream references generate_audio w
     = (out, evs, stats', w1)"
    and w': "w' = w1\<lparr>converse_default_stats := stats'\<rparr>"
    using run by (auto simp: converse_def split: prod.splits)
  note f = converse_body_frame [OF body]
  from w' f(1,2,4) show ?thesis
    by (auto simp: audio_untouched_def stats_kept_def)
qed

theorem converse_default_stats_shared_witness:
  "(let first = converse 0 example_env ''Hello'' ''Hello'' (Some ''k'') example_chat 3 ''en-IN''
                  0 None False None True empty_world;
        w1 = snd (snd (snd first));
        later = converse 0 example_env ''Again'' ''Again'' (Some ''k'') example_chat 3 ''en-IN''
                  0 None False None False w1;
        fresh = converse 0 example_env ''Again'' ''Again'' (Some ''k'') example_chat 3 ''en-IN''
                  0 None False None False empty_world
    in converse_default_stats w1 ''tts_start_time'' = Some 5 \<and>
       fst later = Finished \<and> fst fresh = Finished \<and>
       map_of (cm_meta (last (ChatMessage_objects (snd (snd (snd later)))))) ''tts_start''
         = Some (Some 5) \<and>
       map_of (cm_meta (last (ChatMessage_objects (snd (snd (snd fresh)))))) ''tts_start''
         = Some None)"
proof -
  obtain o1 e1 s1 w1 where r1:
    "converse 0 example_env ''Hello'' ''Hello'' (Some ''k'') example_chat 3 ''en-IN''
       0 None False None True empty_world = (o1, e1, s1, w1)"
    by (rule prod_cases4)
  obtain o2 e2 s2 w2 where r2:
    "converse 0 example_env ''Again'' ''Again'' (Some ''k'') example_chat 3 ''en-IN''
       0 None False None False w1 = (o2, e2, s2, w2)"
    by (rule prod_cases4)
  obtain o3 e3 s3 w3 where r3:
    "converse 0 example_env ''Again'' ''Again'' (Some ''k'') example_chat 3 ''en-IN''
       0 None False None False empty_world = (o3, e3, s3, w3)"
    by (rule prod_cases4)
  have first: "converse_default_stats w1 ''tts_start_time'' = Some 5"
    using r1 by (auto simp: turn_defs example_defs)
  have o2: "o2 = Finished"
    using r1 r2 by (auto simp: turn_defs example_defs)
  have o3: "o3 = Finished" "map_of (cm_meta (last (ChatMessage_objects w3))) ''tts_start''
         = Some None"
    using r3 by (auto simp: turn_defs example_defs)
  from converse_default_stats_shared [OF r2] o2 first
  have "map_of (cm_meta (last (ChatMessage_objects w2))) ''tts_start'' = Some (Some 5)"
    by (simp add: timing_meta_def)
  with first o2 o3 show ?thesis
    by (simp add: r1 r2 r3 Let_def)
qed

subsection \<open>The consumer loop\<close>

text \<open>
  C6. For every sequence of string tokens, pushed in any batches, with no sentinel: the
  loop is still running after any number of iterations, and the events it has yielded
  are Delta events for the first \<open>n\<close> tokens that follow the nine suppressed ones, in the
  order pushed; the \<open>i\<close>-th carries that token and the concatenation of the tokens up to
  it. Once the iterations are as many as the batches and the tokens together, every
  such token has been emitted.
\<close>

theorem token_loop_cumulative_text:
  "\<exists>n\<le>length (drop (length ''Ayushma: '') (concat batches)).
     token_loop fuel env local_translated_text chat match_number user_language temperature
       language generate_audio (map (map Token) batches) [] (length ''Ayushma: '') [] stats w
     = (Running,
        map (\<lambda>i. Yield_data
                    \<lparr>j_chat = chat_external_id chat, j_input = local_translated_text,
                     j_delta = drop (length ''Ayushma: '') (concat batches) ! i,
                     j_message =
                       concat (take (Suc i) (drop (length ''Ayushma: '') (concat batches))),
                     j_stop = False, j_ayushma_voice = None\<rparr>)
          [0 ..< n],
        stats, w)
     \<and> (length batches + length (concat batches) \<le> fuel
          \<longrightarrow> n = length (drop (length ''Ayushma: '') (concat batches)))"
  using token_loop_tokens_general [of "length ''Ayushma: ''" "[]" batches fuel env
      local_translated_text chat match_number user_language temperature language generate_audio
      "[]" stats w]
  by (simp add: create_json_response_def)

theorem token_loop_cumulative_text_witness:
  "token_loop 20 example_env ''Hello'' example_chat 3 ''en-IN'' 0 ''en'' True
     (map (map Token)
        [[''A'', ''y'', ''u'', ''s'', ''h''], [], [''m'', ''a'', '':'', '' '', '' Hi'', '' there'']])
     [] (length ''Ayushma: '') [] Map.empty empty_world
   = (Running,
      [Yield_data \<lparr>j_chat = ''c-1'', j_input = ''Hello'', j_delta = '' Hi'',
                   j_message = '' Hi'', j_stop = False, j_ayushma_voice = None\<rparr>,
       Yield_data \<lparr>j_chat = ''c-1'', j_input = ''Hello'', j_delta = '' there'',
                   j_message = '' Hi there'', j_stop = False, j_ayushma_voice = None\<rparr>],
      Map.empty, empty_world)"
  using token_loop_cumulative_text [of
      "[[''A'', ''y'', ''u'', ''s'', ''h''], [], [''m'', ''a'', '':'', '' '', '' Hi'', '' there'']]"
      20 example_env "''Hello''" example_chat 3 "''en-IN''" 0 "''en''" True Map.empty empty_world]
  by (auto simp: example_chat_def upt_rec numeral_2_eq_2)

text \<open>
  C1. The producer pushes nothing. Whatever the number of iterations, the run is still
  in the loop: it has yielded no event and persisted no Turn but the user's. The call
  \<^verbatim>\<open>token_queue.get(True, timeout=10)\<close> is only reached when the queue is not empty, so
  its timeout cannot expire.
\<close>

theorem converse_silent_producer_spins:
  "case converse fuel silent_env ''Hello'' ''Hello'' (Some ''k'') example_chat 3 ''en-IN'' 0 None
          True None True empty_world of
     (out, evs, stats, w) \<Rightarrow>
       out = Running \<and> evs = [] \<and> map cm_messageType (ChatMessage_objects w) = [USER]"
  by (simp add: turn_defs example_defs token_loop_starved)

text \<open>
  C2. The producer pushes two tokens and then the sentinel, fewer values than the skip
  count. The sentinel is popped while the skip count is positive and is discarded with
  the tokens, before the test for it: whatever the number of iterations, the run is
  still in the loop, with no Final event and no Turn of the assistant.
\<close>

theorem converse_short_stream_spins:
  "case converse fuel short_stream_env ''Hello'' ''Hello'' (Some ''k'') example_chat 3 ''en-IN'' 0
          None True None True empty_world of
     (out, evs, stats, w) \<Rightarrow>
       out = Running \<and> evs = [] \<and> map cm_messageType (ChatMessage_objects w) = [USER]"
  by (simp add: turn_defs example_defs token_loop_starved)

text \<open>
  C3. The five tokens of scenario B and the sentinel, six values against a skip count
  of nine (the number of characters of the role label, not of its tokens): all are
  discarded. Whatever the number of iterations, the run has yielded no Delta event and
  no Final event, and no Turn of the assistant is persisted.
\<close>

theorem converse_scenario_B_spins:
  "\<forall>fuel. case converse fuel example_env ''Hello'' ''Hello'' (Some ''k'') example_chat 3 ''en-IN''
                 0 None True None True empty_world of
     (out, evs, stats, w) \<Rightarrow>
       out = Running \<and> evs = [] \<and> map cm_messageType (ChatMessage_objects w) = [USER]"
  by (simp add: turn_defs example_defs token_loop_starved)

end
